theory Spec2Isabelle
  imports Main "HOL-Library.Word" "HOL-Library.Sublist"
begin

unbundle bit_operations_syntax

section \<open>Data model of ls11.c\<close>

text \<open>
  The program is one C file, \<^verbatim>\<open>ls11.c\<close>. Its integers are modelled with their
  widths on Linux/x86-64: \<^verbatim>\<open>mode_t\<close>, \<^verbatim>\<open>uid_t\<close>, \<^verbatim>\<open>gid_t\<close> and \<^verbatim>\<open>int\<close> are 32-bit
  words, \<^verbatim>\<open>time_t\<close>, \<^verbatim>\<open>off_t\<close>, \<^verbatim>\<open>nlink_t\<close> and \<^verbatim>\<open>dev_t\<close> are 64-bit words.
  C strings are values of type \<^typ>\<open>string\<close>; the character \<open>CHR 0x00\<close> does not occur
  inside a C string, it ends it.
\<close>

type_synonym mode_t = "32 word"
type_synonym time_t = "64 word"

definition PATH_MAX :: nat where
  "PATH_MAX = 4096"

text \<open>\<^verbatim>\<open>#define HALF_YEAR_SECOND (365 * 24 * 60 * 60 / 2)\<close>\<close>

definition HALF_YEAR_SECOND :: time_t where
  "HALF_YEAR_SECOND = 365 * 24 * 60 * 60 div 2"

subsection \<open>The mode bits of \<^verbatim>\<open>sys/stat.h\<close>\<close>

text \<open>
  The macros come from the system header, which is not part of the repository; the
  values are those of Linux (octal in the header, decimal here).
\<close>

definition S_IFMT :: mode_t where "S_IFMT = 61440"
definition S_IFSOCK :: mode_t where "S_IFSOCK = 49152"
definition S_IFLNK :: mode_t where "S_IFLNK = 40960"
definition S_IFREG :: mode_t where "S_IFREG = 32768"
definition S_IFBLK :: mode_t where "S_IFBLK = 24576"
definition S_IFDIR :: mode_t where "S_IFDIR = 16384"
definition S_IFCHR :: mode_t where "S_IFCHR = 8192"
definition S_IFIFO :: mode_t where "S_IFIFO = 4096"

definition S_ISUID :: mode_t where "S_ISUID = 2048"
definition S_ISGID :: mode_t where "S_ISGID = 1024"
definition S_ISVTX :: mode_t where "S_ISVTX = 512"
definition S_IRUSR :: mode_t where "S_IRUSR = 256"
definition S_IWUSR :: mode_t where "S_IWUSR = 128"
definition S_IXUSR :: mode_t where "S_IXUSR = 64"
definition S_IRGRP :: mode_t where "S_IRGRP = 32"
definition S_IWGRP :: mode_t where "S_IWGRP = 16"
definition S_IXGRP :: mode_t where "S_IXGRP = 8"
definition S_IROTH :: mode_t where "S_IROTH = 4"
definition S_IWOTH :: mode_t where "S_IWOTH = 2"
definition S_IXOTH :: mode_t where "S_IXOTH = 1"

text \<open>\<^verbatim>\<open>#define S_IXUGO (S_IXUSR | S_IXGRP | S_IXOTH)\<close>\<close>

definition S_IXUGO :: mode_t where
  "S_IXUGO = S_IXUSR OR S_IXGRP OR S_IXOTH"

definition S_ISBLK :: "mode_t \<Rightarrow> bool" where "S_ISBLK m = (m AND S_IFMT = S_IFBLK)"
definition S_ISCHR :: "mode_t \<Rightarrow> bool" where "S_ISCHR m = (m AND S_IFMT = S_IFCHR)"
definition S_ISDIR :: "mode_t \<Rightarrow> bool" where "S_ISDIR m = (m AND S_IFMT = S_IFDIR)"
definition S_ISREG :: "mode_t \<Rightarrow> bool" where "S_ISREG m = (m AND S_IFMT = S_IFREG)"
definition S_ISFIFO :: "mode_t \<Rightarrow> bool" where "S_ISFIFO m = (m AND S_IFMT = S_IFIFO)"
definition S_ISLNK :: "mode_t \<Rightarrow> bool" where "S_ISLNK m = (m AND S_IFMT = S_IFLNK)"
definition S_ISSOCK :: "mode_t \<Rightarrow> bool" where "S_ISSOCK m = (m AND S_IFMT = S_IFSOCK)"

text \<open>A C condition \<^verbatim>\<open>mode & BIT\<close>: true when the conjunction is not zero.\<close>

definition has_bit :: "mode_t \<Rightarrow> mode_t \<Rightarrow> bool" where
  "has_bit m b = (m AND b \<noteq> 0)"

subsection \<open>Configuration\<close>

text \<open>
  The file-scope variables \<^verbatim>\<open>filter\<close>, \<^verbatim>\<open>color\<close>, \<^verbatim>\<open>classify\<close>, \<^verbatim>\<open>long_format\<close>,
  \<^verbatim>\<open>half_year_ago\<close> and \<^verbatim>\<open>recursive\<close>. \<^verbatim>\<open>parse_cmd_args\<close> sets them before the
  traversal starts and nothing changes them afterwards, so the functions below take them
  as one value.
\<close>

datatype filter_policy = FILTER_DEFAULT | FILTER_ALMOST | FILTER_ALL

record config =
  filter_cfg :: filter_policy
  color :: bool
  classify :: bool
  long_format :: bool
  half_year_ago :: time_t
  recursive :: bool


definition long_format_at :: "time_t \<Rightarrow> config \<Rightarrow> config" where
  "long_format_at now cfg = cfg\<lparr>long_format := True, half_year_ago := now - HALF_YEAR_SECOND\<rparr>"

definition set_option :: "bool \<Rightarrow> time_t \<Rightarrow> char \<Rightarrow> config \<Rightarrow> config option" where
  "set_option tty now opt cfg =
    (if opt = CHR ''a'' then Some (cfg\<lparr>filter_cfg := FILTER_ALL\<rparr>)
     else if opt = CHR ''A'' then Some (cfg\<lparr>filter_cfg := FILTER_ALMOST\<rparr>)
     else if opt = CHR ''C'' then Some (if tty then cfg\<lparr>color := True\<rparr> else cfg)
     else if opt = CHR ''F'' then Some (cfg\<lparr>classify := True\<rparr>)
     else if opt = CHR ''l'' then Some (long_format_at now cfg)
     else if opt = CHR ''R'' then Some (cfg\<lparr>recursive := True\<rparr>)
     else None)"

text \<open>
  \<^verbatim>\<open>struct dir_path\<close>: the \<^verbatim>\<open>next\<close> pointers make a singly linked list, modelled as a
  list of the nodes, so that a pointer to a node is a position in the list.
\<close>

record dir_path =
  path :: string
  depth :: "32 word"

section \<open>Formatters\<close>

subsection \<open>\<^verbatim>\<open>get_mode_string\<close>\<close>

text \<open>
  The function fills \<^verbatim>\<open>str[0]\<close> to \<^verbatim>\<open>str[9]\<close> and ends the string at \<^verbatim>\<open>str[10]\<close>; the
  model returns the ten characters.
\<close>

definition get_mode_string :: "mode_t \<Rightarrow> string" where
  "get_mode_string m =
    [ if S_ISBLK m then CHR ''b''
      else if S_ISCHR m then CHR ''c''
      else if S_ISDIR m then CHR ''d''
      else if S_ISREG m then CHR ''-''
      else if S_ISFIFO m then CHR ''p''
      else if S_ISLNK m then CHR ''l''
      else if S_ISSOCK m then CHR ''s''
      else CHR ''?'',
      if has_bit m S_IRUSR then CHR ''r'' else CHR ''-'',
      if has_bit m S_IWUSR then CHR ''w'' else CHR ''-'',
      if has_bit m S_ISUID then (if has_bit m S_IXUSR then CHR ''s'' else CHR ''S'')
      else (if has_bit m S_IXUSR then CHR ''x'' else CHR ''-''),
      if has_bit m S_IRGRP then CHR ''r'' else CHR ''-'',
      if has_bit m S_IWGRP then CHR ''w'' else CHR ''-'',
      if has_bit m S_ISGID then (if has_bit m S_IXGRP then CHR ''s'' else CHR ''S'')
      else (if has_bit m S_IXGRP then CHR ''x'' else CHR ''-''),
      if has_bit m S_IROTH then CHR ''r'' else CHR ''-'',
      if has_bit m S_IWOTH then CHR ''w'' else CHR ''-'',
      if has_bit m S_ISVTX then (if has_bit m S_IXOTH then CHR ''t'' else CHR ''T'')
      else (if has_bit m S_IXOTH then CHR ''x'' else CHR ''-'') ]"

subsection \<open>Output, errors and the environment\<close>

text \<open>
  The program writes to standard output and standard error and keeps directory streams
  open; the model passes this state explicitly. The trace keeps the two streams in the
  order of the calls, one event per call of \<^verbatim>\<open>printf\<close>, \<^verbatim>\<open>putchar\<close>, \<^verbatim>\<open>fprintf\<close> or
  \<^verbatim>\<open>perror\<close>. \<open>dirs\<close> lists the paths of the directory streams that \<^verbatim>\<open>opendir\<close> returned
  and \<^verbatim>\<open>closedir\<close> has not released.

  C leaves the behaviour of the program undefined where a signed subtraction overflows
  and where a null pointer is read; on Linux the second ends the process with
  \<^verbatim>\<open>SIGSEGV\<close>. The model records such a fault as an event of the trace. The trace up
  to the first \<open>Fault\<close> event is what a run of the program writes up to that point; the
  events that the model appends behind it say nothing about the run.
\<close>

datatype fault = Signed_overflow | Null_pointer

datatype event = Stdout string | Stderr string | Fault fault

record world =
  trace :: "event list"
  dirs :: "string list"

definition put :: "string \<Rightarrow> world \<Rightarrow> world" where
  "put s w = w\<lparr>trace := trace w @ [Stdout s]\<rparr>"

definition eput :: "string \<Rightarrow> world \<Rightarrow> world" where
  "eput s w = w\<lparr>trace := trace w @ [Stderr s]\<rparr>"

definition halt :: "fault \<Rightarrow> world \<Rightarrow> world" where
  "halt f w = w\<lparr>trace := trace w @ [Fault f]\<rparr>"

text \<open>
  A failing system call yields the text of \<^verbatim>\<open>strerror(errno)\<close>. \<^verbatim>\<open>perror(s)\<close> writes
  \<^verbatim>\<open>s\<close>, a colon and a blank when \<^verbatim>\<open>s\<close> is not the empty string, then that text and a
  newline (POSIX).
\<close>

type_synonym errmsg = string

definition perror :: "string \<Rightarrow> errmsg \<Rightarrow> world \<Rightarrow> world" where
  "perror s e w = eput ((if s = [] then [] else s @ '': '') @ e @ [CHR 0x0A]) w"

record stat =
  st_mode :: mode_t
  st_nlink :: "64 word"
  st_uid :: "32 word"
  st_gid :: "32 word"
  st_rdev :: "64 word"
  st_size :: "64 word"
  st_mtime :: time_t

text \<open>
  The operating system and the C library, as far as the program consults them. The file
  system does not change during a run. \<open>fs_opendir\<close> gives the names that the successive
  \<^verbatim>\<open>readdir\<close> calls on the stream return, in that order. \<open>localtime t\<close> is the
  broken-down local time of \<open>t\<close>, or \<open>None\<close> where \<^verbatim>\<open>localtime\<close> returns a null pointer
  (the year of \<open>t\<close> does not fit \<^verbatim>\<open>tm_year\<close>). \<open>strftime fmt tm str\<close> is what
  \<^verbatim>\<open>strftime(str, 12, fmt, &tm)\<close> leaves in a buffer \<^verbatim>\<open>str\<close> that held \<open>str\<close> before the
  call: the formatted time when it fits the twelve bytes, and whatever the C library
  leaves there when it does not.
\<close>

record tm =
  tm_sec :: int
  tm_min :: int
  tm_hour :: int
  tm_mday :: int
  tm_mon :: int
  tm_year :: int
  tm_wday :: int
  tm_yday :: int
  tm_isdst :: int

record env =
  fs_opendir :: "string \<Rightarrow> errmsg + string list"
  fs_lstat :: "string \<Rightarrow> errmsg + stat"
  fs_stat :: "string \<Rightarrow> errmsg + stat"
  fs_readlink :: "string \<Rightarrow> errmsg + string"
  getpwuid :: "32 word \<Rightarrow> string option"
  getgrgid :: "32 word \<Rightarrow> string option"
  localtime :: "time_t \<Rightarrow> tm option"
  strftime :: "string \<Rightarrow> tm \<Rightarrow> string \<Rightarrow> string"

text \<open>
  What \<^verbatim>\<open>opendir\<close> finds: \<^verbatim>\<open>opendir\<close> of the empty pathname fails (POSIX:
  \<^verbatim>\<open>ENOENT\<close>), any other pathname is the file system's to decide.
\<close>

definition dir_stream :: "env \<Rightarrow> string \<Rightarrow> errmsg + string list" where
  "dir_stream ev p = (if p = [] then Inl ''No such file or directory'' else fs_opendir ev p)"

text \<open>A stream that \<^verbatim>\<open>opendir\<close> returns is open until \<^verbatim>\<open>closedir\<close>.\<close>

definition opendir :: "env \<Rightarrow> string \<Rightarrow> world \<Rightarrow> (errmsg + string list) \<times> world" where
  "opendir ev p w =
    (case dir_stream ev p of
       Inl e \<Rightarrow> (Inl e, w)
     | Inr names \<Rightarrow> (Inr names, w\<lparr>dirs := p # dirs w\<rparr>))"

definition closedir :: "string \<Rightarrow> world \<Rightarrow> world" where
  "closedir p w = w\<lparr>dirs := remove1 p (dirs w)\<rparr>"

subsection \<open>Decimal output of \<^verbatim>\<open>printf\<close>\<close>

fun dec_digits :: "nat \<Rightarrow> string" where
  "dec_digits n =
    (if n < 10 then [char_of (n + 48)]
     else dec_digits (n div 10) @ [char_of (n mod 10 + 48)])"

declare dec_digits.simps [simp del]

text \<open>\<^verbatim>\<open>%d\<close> and \<^verbatim>\<open>%ld\<close>.\<close>

definition show_int :: "int \<Rightarrow> string" where
  "show_int i = (if i < 0 then CHR ''-'' # dec_digits (nat (- i)) else dec_digits (nat i))"

text \<open>A minimum field width, right-justified with blanks: \<^verbatim>\<open>%3d\<close>, \<^verbatim>\<open>%8s\<close>.\<close>

definition pad_left :: "nat \<Rightarrow> string \<Rightarrow> string" where
  "pad_left n s = replicate (n - length s) CHR '' '' @ s"

subsection \<open>\<^verbatim>\<open>print_type_indicator\<close>\<close>

definition print_type_indicator :: "mode_t \<Rightarrow> world \<Rightarrow> world" where
  "print_type_indicator m w =
    (if S_ISREG m then
       (if has_bit m S_IXUGO then put ''*'' w else w)
     else if S_ISDIR m then put ''/'' w
     else if S_ISLNK m then put ''@'' w
     else if S_ISFIFO m then put ''|'' w
     else if S_ISSOCK m then put ''='' w
     else w)"

subsection \<open>\<^verbatim>\<open>print_user\<close> and \<^verbatim>\<open>print_group\<close>\<close>

text \<open>The numeric fallback prints the unsigned id with \<^verbatim>\<open>%8d\<close>, that is as an \<^verbatim>\<open>int\<close>.\<close>

definition print_user :: "env \<Rightarrow> 32 word \<Rightarrow> world \<Rightarrow> world" where
  "print_user ev uid w =
    (case getpwuid ev uid of
       Some pw_name \<Rightarrow> put (pad_left 8 pw_name @ '' '') w
     | None \<Rightarrow> put (pad_left 8 (show_int (sint uid)) @ '' '') w)"

definition print_group :: "env \<Rightarrow> 32 word \<Rightarrow> world \<Rightarrow> world" where
  "print_group ev gid w =
    (case getgrgid ev gid of
       Some gr_name \<Rightarrow> put (pad_left 8 gr_name @ '' '') w
     | None \<Rightarrow> put (pad_left 8 (show_int (sint gid)) @ '' '') w)"

subsection \<open>\<^verbatim>\<open>get_time_string\<close>\<close>

text \<open>
  The subtraction of two \<^verbatim>\<open>time_t\<close> values, which are signed 64-bit integers: C defines
  it where the difference of the two values fits the type, and there it is that
  difference.
\<close>

definition time_sub :: "time_t \<Rightarrow> time_t \<Rightarrow> fault + time_t" where
  "time_sub a b =
    (if - (2 ^ 63) \<le> sint a - sint b \<and> sint a - sint b < 2 ^ 63 then Inr (a - b)
     else Inl Signed_overflow)"

definition short_time_format :: string where
  "short_time_format = ''%m/%d %H:%M''"

definition long_time_format :: string where
  "long_time_format = ''%m/%d  %Y''"

text \<open>
  \<open>str\<close> is what the buffer holds before the call, the result what it holds after it.
  The condition \<^verbatim>\<open>time - half_year_ago > 0\<close> is evaluated first, then \<^verbatim>\<open>localtime\<close>,
  whose result \<^verbatim>\<open>strftime\<close> reads without a test. The function ignores what
  \<^verbatim>\<open>strftime\<close> returns.
\<close>

definition get_time_string :: "config \<Rightarrow> env \<Rightarrow> string \<Rightarrow> time_t \<Rightarrow> fault + string" where
  "get_time_string cfg ev str t =
    (case time_sub t (half_year_ago cfg) of
       Inl f \<Rightarrow> Inl f
     | Inr d \<Rightarrow>
         if 0 <s d then
           (case localtime ev t of
              None \<Rightarrow> Inl Null_pointer
            | Some tm \<Rightarrow> Inr (strftime ev short_time_format tm str))
         else
           (case localtime ev t of
              None \<Rightarrow> Inl Null_pointer
            | Some tm \<Rightarrow> Inr (strftime ev long_time_format tm str)))"

subsection \<open>\<^verbatim>\<open>print_name_with_color\<close>\<close>

text \<open>\<^verbatim>\<open>\033\<close> is the escape character, code 27.\<close>

definition ESC :: char where
  "ESC = CHR 0x1B"

definition print_name_with_color :: "string \<Rightarrow> mode_t \<Rightarrow> bool \<Rightarrow> world \<Rightarrow> world" where
  "print_name_with_color name m link_ok w =
    (let w1 =
       (if \<not> link_ok then put (ESC # ''[31m'') w
        else if S_ISREG m then
          (if has_bit m S_ISUID then put (ESC # ''[37;41m'') w
           else if has_bit m S_ISGID then put (ESC # ''[30;43m'') w
           else if has_bit m S_IXUGO then put (ESC # ''[01;32m'') w
           else put (ESC # ''[0m'') w)
        else if S_ISDIR m then
          (if has_bit m S_ISVTX \<and> has_bit m S_IWOTH then put (ESC # ''[30;42m'') w
           else if has_bit m S_IWOTH then put (ESC # ''[34;42m'') w
           else if has_bit m S_ISVTX then put (ESC # ''[37;44m'') w
           else put (ESC # ''[01;34m'') w)
        else if S_ISLNK m then put (ESC # ''[01;36m'') w
        else if S_ISFIFO m then put (ESC # ''[33m'') w
        else if S_ISSOCK m then put (ESC # ''[01;35m'') w
        else if S_ISBLK m then put (ESC # ''[01;33m'') w
        else if S_ISCHR m then put (ESC # ''[01;33m'') w
        else w)
     in put (ESC # ''[0m'') (put name w1))"

section \<open>The directory lister\<close>

subsection \<open>\<^verbatim>\<open>new_dir_path\<close>\<close>

text \<open>
  \<^verbatim>\<open>strncpy(s->path, path, sizeof(s->path))\<close> copies at most \<^verbatim>\<open>PATH_MAX + 1\<close> bytes. The
  result is the list that starts at the new node and goes on with \<^verbatim>\<open>next\<close>. Allocation
  is taken to succeed (\<^verbatim>\<open>xmalloc\<close> ends the process otherwise).
\<close>

definition new_dir_path :: "string \<Rightarrow> 32 word \<Rightarrow> dir_path list \<Rightarrow> dir_path list" where
  "new_dir_path p d nxt = \<lparr>path = take (PATH_MAX + 1) p, depth = d\<rparr> # nxt"

subsection \<open>The name filter\<close>

text \<open>
  \<^verbatim>\<open>name[i]\<close> for a C string: the characters, then the terminating zero at
  \<^verbatim>\<open>i = strlen(name)\<close>. The program reads no index beyond that.
\<close>

definition cchar :: "string \<Rightarrow> nat \<Rightarrow> char" where
  "cchar s i = (if i < length s then s ! i else CHR 0x00)"

text \<open>The condition of lines 338 to 341, under which the entry is skipped.\<close>

definition hidden :: "filter_policy \<Rightarrow> string \<Rightarrow> bool" where
  "hidden f name =
    (f \<noteq> FILTER_ALL
     \<and> cchar name 0 = CHR ''.''
     \<and> (f = FILTER_DEFAULT
        \<or> cchar name (1 + (if cchar name 1 = CHR ''.'' then 1 else 0)) = CHR 0x00))"

text \<open>The condition negated in line 350: the name is \<^verbatim>\<open>.\<close> or \<^verbatim>\<open>..\<close>.\<close>

definition dot_or_dotdot :: "string \<Rightarrow> bool" where
  "dot_or_dotdot name =
    (cchar name 0 = CHR ''.''
     \<and> cchar name (1 + (if cchar name 1 = CHR ''.'' then 1 else 0)) = CHR 0x00)"

subsection \<open>One directory entry\<close>

text \<open>
  \<^verbatim>\<open>major\<close> and \<^verbatim>\<open>minor\<close> of \<^verbatim>\<open>sys/sysmacros.h\<close> (glibc), which give an
  \<^verbatim>\<open>unsigned int\<close>.
\<close>

definition major :: "64 word \<Rightarrow> 32 word" where
  "major dev =
    ucast (drop_bit 8 (dev AND 0x00000000000FFF00) OR drop_bit 32 (dev AND 0xFFFFF00000000000))"

definition minor :: "64 word \<Rightarrow> 32 word" where
  "minor dev =
    ucast ((dev AND 0x00000000000000FF) OR drop_bit 12 (dev AND 0x00000FFFFFF00000))"

text \<open>
  Lines 355 to 363: the link's target and whether it resolves, as
  \<open>(link_len, link, link_ok, link_stat)\<close>. \<^verbatim>\<open>readlink\<close> stores at most \<^verbatim>\<open>PATH_MAX\<close>
  bytes and returns their number, or \<open>-1\<close>. When \<^verbatim>\<open>stat\<close> fails \<^verbatim>\<open>link_stat\<close> holds
  nothing.
\<close>

definition read_link :: "env \<Rightarrow> string \<Rightarrow> mode_t \<Rightarrow> int \<times> string \<times> bool \<times> stat option" where
  "read_link ev p m =
    (if S_ISLNK m then
       (let (link_len, link) =
              (case fs_readlink ev p of
                 Inl e \<Rightarrow> (- 1, [])
               | Inr target \<Rightarrow> (int (length (take PATH_MAX target)), take PATH_MAX target))
        in case fs_stat ev p of
             Inl e \<Rightarrow> (link_len, link, False, None)
           | Inr s \<Rightarrow> (link_len, link, True, Some s))
     else (0, [], True, None))"

text \<open>
  Lines 364 to 378: the columns of the long format. The one buffer \<^verbatim>\<open>buf\<close> holds the
  mode string first and is then handed to \<^verbatim>\<open>get_time_string\<close>.
\<close>

definition print_long :: "config \<Rightarrow> env \<Rightarrow> stat \<Rightarrow> world \<Rightarrow> world" where
  "print_long cfg ev dent_stat w =
    (let w1 = put (get_mode_string (st_mode dent_stat) @ '' '') w;
         w2 = put (pad_left 3 (show_int (sint (ucast (st_nlink dent_stat) :: 32 word))) @ '' '') w1;
         w3 = print_user ev (st_uid dent_stat) w2;
         w4 = print_group ev (st_gid dent_stat) w3;
         w5 = (if S_ISCHR (st_mode dent_stat) \<or> S_ISBLK (st_mode dent_stat) then
                 put (pad_left 4 (show_int (sint (major (st_rdev dent_stat)))) @ '',''
                      @ pad_left 4 (show_int (sint (minor (st_rdev dent_stat)))) @ '' '') w4
               else put (pad_left 9 (show_int (sint (st_size dent_stat))) @ '' '') w4)
     in case get_time_string cfg ev (get_mode_string (st_mode dent_stat)) (st_mtime dent_stat) of
          Inl f \<Rightarrow> halt f w5
        | Inr buf \<Rightarrow> put (buf @ '' '') w5)"

text \<open>
  Lines 387 to 396: the link's target. \<^verbatim>\<open>link_stat.st_mode\<close> is read only when
  \<^verbatim>\<open>link_ok\<close> holds; the model passes 0 where \<^verbatim>\<open>stat\<close> has filled nothing in.
\<close>

definition print_link :: "config \<Rightarrow> int \<Rightarrow> string \<Rightarrow> bool \<Rightarrow> stat option \<Rightarrow> world \<Rightarrow> world" where
  "print_link cfg link_len link link_ok link_stat w =
    (if long_format cfg then
       (if 0 < link_len then
          (let w1 = put '' -> '' w in
           if color cfg then
             print_name_with_color link
               (case link_stat of None \<Rightarrow> 0 | Some s \<Rightarrow> st_mode s) link_ok w1
           else put link w1)
        else w)
     else w)"

text \<open>
  Lines 364 to 386: the columns of the long format, the name and the type indicator.
\<close>

definition entry_head :: "config \<Rightarrow> env \<Rightarrow> string \<Rightarrow> stat \<Rightarrow> bool \<Rightarrow> world \<Rightarrow> world" where
  "entry_head cfg ev name dent_stat link_ok w =
    (let w1 = (if long_format cfg then print_long cfg ev dent_stat w else w);
         w2 = (if color cfg then print_name_with_color name (st_mode dent_stat) link_ok w1
               else put name w1)
     in if classify cfg then print_type_indicator (st_mode dent_stat) w2 else w2)"

text \<open>
  Line 344: \<open>pfx\<close> is \<^verbatim>\<open>path\<close> up to \<^verbatim>\<open>path_len\<close>, and \<^verbatim>\<open>strncpy\<close> appends at most
  \<^verbatim>\<open>PATH_MAX - path_len\<close> characters of the name to it. When the prefix and the name
  together have fewer than \<^verbatim>\<open>PATH_MAX\<close> characters, \<^verbatim>\<open>strncpy\<close> copies the whole name
  and ends the string, and \<open>child_path pfx name\<close> is \<open>pfx @ name\<close>. Otherwise
  \<^verbatim>\<open>strncpy\<close> cuts the name short and writes no terminating zero, so that what the
  program reads as the path runs on into the byte \<^verbatim>\<open>path[PATH_MAX]\<close>, which nothing has
  written. The value that the model gives there is the path cut after \<^verbatim>\<open>PATH_MAX\<close>
  characters, which is the program's path only if that byte happens to be zero.
\<close>

definition child_path :: "string \<Rightarrow> string \<Rightarrow> string" where
  "child_path pfx name = pfx @ take (PATH_MAX - length pfx) name"

text \<open>
  The body of the \<^verbatim>\<open>while\<close> loop for the entry \<open>name\<close>. The state is the list that
  starts at \<^verbatim>\<open>base\<close>, the position of \<^verbatim>\<open>subque\<close> in it, and the world. Lines 351 and
  352 put the new node behind \<^verbatim>\<open>subque\<close>, in front of what followed it, and move
  \<^verbatim>\<open>subque\<close> to the new node.
\<close>

definition list_entry ::
  "config \<Rightarrow> env \<Rightarrow> 32 word \<Rightarrow> string \<Rightarrow> string
    \<Rightarrow> dir_path list \<times> nat \<times> world \<Rightarrow> dir_path list \<times> nat \<times> world" where
  "list_entry cfg ev base_depth pfx name s =
    (case s of (que, subque, w) \<Rightarrow>
      if hidden (filter_cfg cfg) name then s
      else
        let p = child_path pfx name in
        case fs_lstat ev p of
          Inl e \<Rightarrow> (que, subque, perror p e w)
        | Inr dent_stat \<Rightarrow>
            let (que1, subque1) =
                  (if recursive cfg \<and> S_ISDIR (st_mode dent_stat) \<and> \<not> dot_or_dotdot name then
                     (take (Suc subque) que
                        @ new_dir_path p (base_depth + 1) (drop (Suc subque) que),
                      Suc subque)
                   else (que, subque));
                (link_len, link, link_ok, link_stat) = read_link ev p (st_mode dent_stat);
                w3 = entry_head cfg ev name dent_stat link_ok w;
                w4 = print_link cfg link_len link link_ok link_stat w3
            in (que1, subque1, put [CHR 0x0A] w4))"

text \<open>The \<^verbatim>\<open>while\<close> loop over the names that \<^verbatim>\<open>readdir\<close> returns.\<close>

fun read_loop ::
  "config \<Rightarrow> env \<Rightarrow> 32 word \<Rightarrow> string \<Rightarrow> string list
    \<Rightarrow> dir_path list \<times> nat \<times> world \<Rightarrow> dir_path list \<times> nat \<times> world" where
  "read_loop cfg ev base_depth pfx [] s = s"
| "read_loop cfg ev base_depth pfx (name # names) s =
     read_loop cfg ev base_depth pfx names (list_entry cfg ev base_depth pfx name s)"

subsection \<open>\<^verbatim>\<open>list_dir\<close>\<close>

text \<open>
  Lines 325 to 330: the base path, with a slash appended unless it ends in one. The
  base path is not empty here, since \<^verbatim>\<open>opendir\<close> has opened it.
\<close>

definition dir_prefix :: "string \<Rightarrow> string" where
  "dir_prefix base_path =
    (if last base_path \<noteq> CHR ''/'' then base_path @ ''/'' else base_path)"

text \<open>
  \<open>base # rest\<close> is the list that starts at \<^verbatim>\<open>base\<close>. The result is that list after
  the insertions, and the world.
\<close>

definition list_dir :: "config \<Rightarrow> env \<Rightarrow> dir_path \<Rightarrow> dir_path list \<Rightarrow> world \<Rightarrow> dir_path list \<times> world" where
  "list_dir cfg ev base rest w =
    (let base_path = path base in
     case opendir ev base_path w of
       (Inl e, w1) \<Rightarrow> (base # rest, perror base_path e w1)
     | (Inr names, w1) \<Rightarrow>
         if PATH_MAX - 1 \<le> length base_path then
           (base # rest, eput (''too long path'' @ [CHR 0x0A]) w1)
         else
           let (que, subque, w2) =
                  read_loop cfg ev (depth base) (dir_prefix base_path) names (base # rest, 0, w1)
           in (que, closedir base_path w2))"

section \<open>The traversal driver\<close>

text \<open>
  The \<^verbatim>\<open>while (head != NULL)\<close> loop of \<^verbatim>\<open>main\<close>. Each round costs one unit of fuel;
  \<open>None\<close> says that the fuel ran out before the queue was empty.
\<close>

fun main_loop :: "nat \<Rightarrow> config \<Rightarrow> env \<Rightarrow> dir_path list \<Rightarrow> world \<Rightarrow> world option" where
  "main_loop fuel cfg ev [] w = Some w"
| "main_loop 0 cfg ev (head # rest) w = None"
| "main_loop (Suc fuel) cfg ev (head # rest) w =
     (let w1 = (if depth head \<noteq> 0
                then put ([CHR 0x0A] @ path head @ '':'' @ [CHR 0x0A]) w else w);
          (que, w2) = list_dir cfg ev head rest w1
      in main_loop fuel cfg ev (tl que) w2)"

text \<open>
  \<^verbatim>\<open>main\<close> after \<^verbatim>\<open>parse_cmd_args\<close> has returned the path and set the configuration.
\<close>

definition ls_main :: "nat \<Rightarrow> config \<Rightarrow> env \<Rightarrow> string \<Rightarrow> world option" where
  "ls_main fuel cfg ev root =
     main_loop fuel cfg ev (new_dir_path root 0 []) \<lparr>trace = [], dirs = []\<rparr>"

section \<open>Notions used to state the properties\<close>

text \<open>The world before the program has written anything or opened any directory.\<close>

definition w0 :: world where
  "w0 = \<lparr>trace = [], dirs = []\<rparr>"

text \<open>The events that a printing function adds to the trace.\<close>

definition out :: "(world \<Rightarrow> world) \<Rightarrow> event list" where
  "out f = trace (f w0)"

text \<open>
  The node that the entry \<open>name\<close> of a directory adds to the queue, if any: the entry is
  not skipped by the filter, \<^verbatim>\<open>lstat\<close> succeeds on it and says that it is a
  directory, recursion is on and the name is neither \<^verbatim>\<open>.\<close> nor \<^verbatim>\<open>..\<close>.
\<close>

definition subdir_of_entry :: "config \<Rightarrow> env \<Rightarrow> 32 word \<Rightarrow> string \<Rightarrow> string \<Rightarrow> dir_path list" where
  "subdir_of_entry cfg ev base_depth pfx name =
    (if hidden (filter_cfg cfg) name then []
     else case fs_lstat ev (child_path pfx name) of
       Inl e \<Rightarrow> []
     | Inr dent_stat \<Rightarrow>
         if recursive cfg \<and> S_ISDIR (st_mode dent_stat) \<and> \<not> dot_or_dotdot name
         then [\<lparr>path = take (PATH_MAX + 1) (child_path pfx name), depth = base_depth + 1\<rparr>]
         else [])"

text \<open>
  The nodes that listing the directory \<open>base\<close> adds to the queue: those of its entries,
  in the order in which \<^verbatim>\<open>readdir\<close> returns the entries.
\<close>

definition subdirs_of :: "config \<Rightarrow> env \<Rightarrow> dir_path \<Rightarrow> dir_path list" where
  "subdirs_of cfg ev base =
    (case dir_stream ev (path base) of
       Inl e \<Rightarrow> []
     | Inr names \<Rightarrow>
         if PATH_MAX - 1 \<le> length (path base) then []
         else concat (map (subdir_of_entry cfg ev (depth base) (dir_prefix (path base))) names))"

text \<open>What the loop body writes for one entry, and what \<^verbatim>\<open>list_dir\<close> writes for a directory.\<close>

definition entry_events :: "config \<Rightarrow> env \<Rightarrow> string \<Rightarrow> string \<Rightarrow> event list" where
  "entry_events cfg ev pfx name =
    trace (snd (snd (list_entry cfg ev 0 pfx name ([], 0, w0))))"

definition listing :: "config \<Rightarrow> env \<Rightarrow> dir_path \<Rightarrow> event list" where
  "listing cfg ev base = trace (snd (list_dir cfg ev base [] w0))"

text \<open>The directory streams that \<^verbatim>\<open>list_dir\<close> leaves open.\<close>

definition leaked :: "config \<Rightarrow> env \<Rightarrow> dir_path \<Rightarrow> string list" where
  "leaked cfg ev base = dirs (snd (list_dir cfg ev base [] w0))"

text \<open>The header line that \<^verbatim>\<open>main\<close> writes in front of a directory.\<close>

definition header :: "dir_path \<Rightarrow> event list" where
  "header d =
    (if depth d \<noteq> 0 then [Stdout ([CHR 0x0A] @ path d @ '':'' @ [CHR 0x0A])] else [])"

text \<open>
  The directories in the order in which the driver takes them from the head of the
  queue, as far as the fuel reaches.
\<close>

fun visited :: "nat \<Rightarrow> config \<Rightarrow> env \<Rightarrow> dir_path list \<Rightarrow> dir_path list" where
  "visited fuel cfg ev [] = []"
| "visited 0 cfg ev (head # rest) = []"
| "visited (Suc fuel) cfg ev (head # rest) =
     head # visited fuel cfg ev (subdirs_of cfg ev head @ rest)"

text \<open>Every name that \<^verbatim>\<open>readdir\<close> returns has at least one character.\<close>

definition named_entries :: "env \<Rightarrow> bool" where
  "named_entries ev = (\<forall>p names. fs_opendir ev p = Inr names \<longrightarrow> [] \<notin> set names)"


subsection \<open>Terminal styles\<close>

text \<open>
  What a terminal makes of the escape sequence \<^verbatim>\<open>ESC [ p1 ; p2 ... m\<close> (ECMA-48, select
  graphic rendition), as far as the program uses it: 0 resets, 1 is bold, 30 to 37 set
  the foreground and 40 to 47 the background to black, red, green, yellow, blue, magenta,
  cyan, white. The program resets the style after every name, so a style starts from
  \<open>plain\<close>.
\<close>

datatype colour = Black | Red | Green | Yellow | Blue | Magenta | Cyan | White

record style =
  bold :: bool
  fg :: "colour option"
  bg :: "colour option"

definition plain :: style where
  "plain = \<lparr>bold = False, fg = None, bg = None\<rparr>"

definition colour_of :: "nat \<Rightarrow> colour" where
  "colour_of n = [Black, Red, Green, Yellow, Blue, Magenta, Cyan, White] ! (n mod 8)"

definition sgr :: "style \<Rightarrow> nat \<Rightarrow> style" where
  "sgr s n =
    (if n = 0 then plain
     else if n = 1 then s\<lparr>bold := True\<rparr>
     else if 30 \<le> n \<and> n \<le> 37 then s\<lparr>fg := Some (colour_of (n - 30))\<rparr>
     else if 40 \<le> n \<and> n \<le> 47 then s\<lparr>bg := Some (colour_of (n - 40))\<rparr>
     else s)"

fun sgr_params :: "string \<Rightarrow> nat \<Rightarrow> nat list" where
  "sgr_params [] acc = [acc]"
| "sgr_params (c # cs) acc =
     (if c = CHR '';'' then acc # sgr_params cs 0
      else sgr_params cs (10 * acc + (of_char c - 48)))"

definition escape_style :: "string \<Rightarrow> style option" where
  "escape_style s =
    (case s of
       e # b # r \<Rightarrow>
         if e = ESC \<and> b = CHR ''['' \<and> r \<noteq> [] \<and> last r = CHR ''m''
         then Some (foldl sgr plain (sgr_params (butlast r) 0))
         else None
     | _ \<Rightarrow> None)"

subsection \<open>Symbolic links\<close>

text \<open>
  What the two system calls on a link's path say: whether \<^verbatim>\<open>readlink\<close> returns at least
  one byte, the target string that it stores, whether \<^verbatim>\<open>stat\<close>, which follows the link,
  succeeds, and the mode that it reports.
\<close>

definition link_readable :: "env \<Rightarrow> string \<Rightarrow> bool" where
  "link_readable ev p = (case fs_readlink ev p of Inl e \<Rightarrow> False | Inr target \<Rightarrow> target \<noteq> [])"

definition link_target :: "env \<Rightarrow> string \<Rightarrow> string" where
  "link_target ev p = (case fs_readlink ev p of Inl e \<Rightarrow> [] | Inr target \<Rightarrow> take PATH_MAX target)"

definition link_resolves :: "env \<Rightarrow> string \<Rightarrow> bool" where
  "link_resolves ev p = (case fs_stat ev p of Inl e \<Rightarrow> False | Inr s \<Rightarrow> True)"

definition target_mode :: "env \<Rightarrow> string \<Rightarrow> mode_t" where
  "target_mode ev p = (case fs_stat ev p of Inl e \<Rightarrow> 0 | Inr s \<Rightarrow> st_mode s)"

subsection \<open>The form of a diagnostic\<close>

text \<open>A line of the form \<^verbatim>\<open><path>: <reason>\<close> starts with the path, a colon and a blank.\<close>

definition has_path_form :: "string \<Rightarrow> string \<Rightarrow> bool" where
  "has_path_form p line = (take (length p + 2) line = p @ '': '')"

subsection \<open>Sample inputs\<close>

text \<open>
  A small file system: the directory \<^verbatim>\<open>r\<close> holds the directory \<^verbatim>\<open>a\<close>, a name whose
  \<^verbatim>\<open>lstat\<close> fails, the symbolic link \<^verbatim>\<open>l\<close> to \<^verbatim>\<open>a\<close>, the directory \<^verbatim>\<open>locked\<close> that
  cannot be opened, and the regular file \<^verbatim>\<open>f\<close>. In \<open>open_env\<close> every pathname opens
  as an empty directory; \<open>long_root\<close> is a pathname of \<^verbatim>\<open>PATH_MAX - 1\<close> slashes, which
  names the root directory. In the samples \<^verbatim>\<open>localtime\<close> converts the times from
  \<open>- 2 ^ 56\<close> up to \<open>2 ^ 56\<close>, a little more than those whose year fits \<^verbatim>\<open>tm_year\<close>,
  and \<^verbatim>\<open>strftime\<close> leaves the format itself in the buffer.
\<close>

definition epoch_tm :: tm where
  "epoch_tm = \<lparr>tm_sec = 0, tm_min = 0, tm_hour = 0, tm_mday = 1, tm_mon = 0, tm_year = 70,
     tm_wday = 4, tm_yday = 0, tm_isdst = 0\<rparr>"

definition sample_localtime :: "time_t \<Rightarrow> tm option" where
  "sample_localtime t = (if - (2 ^ 56) \<le> sint t \<and> sint t < 2 ^ 56 then Some epoch_tm else None)"

definition mk_stat :: "mode_t \<Rightarrow> stat" where
  "mk_stat m = \<lparr>st_mode = m, st_nlink = 1, st_uid = 0, st_gid = 0, st_rdev = 0, st_size = 5,
     st_mtime = 100\<rparr>"

definition demo_env :: env where
  "demo_env =
    \<lparr>fs_opendir = (\<lambda>p. if p = ''r'' then Inr [''a'', ''gone'', ''l'', ''locked'', ''f'']
                       else if p = ''r/a'' then Inr []
                       else if p = ''r/locked'' then Inl ''Permission denied''
                       else Inl ''No such file or directory''),
     fs_lstat = (\<lambda>p. if p = ''r/a'' \<or> p = ''r/locked'' then Inr (mk_stat (S_IFDIR OR 493))
                     else if p = ''r/l'' then Inr (mk_stat (S_IFLNK OR 511))
                     else if p = ''r/f'' then Inr (mk_stat (S_IFREG OR 420))
                     else Inl ''No such file or directory''),
     fs_stat = (\<lambda>p. if p = ''r/l'' then Inr (mk_stat (S_IFDIR OR 493))
                    else Inl ''No such file or directory''),
     fs_readlink = (\<lambda>p. if p = ''r/l'' then Inr ''a'' else Inl ''Invalid argument''),
     getpwuid = (\<lambda>u. if u = 0 then Some ''root'' else None),
     getgrgid = (\<lambda>g. None),
     localtime = sample_localtime,
     strftime = (\<lambda>fmt tm str. fmt)\<rparr>"

definition demo_cfg :: config where
  "demo_cfg = \<lparr>filter_cfg = FILTER_DEFAULT, color = False, classify = False,
     long_format = False, half_year_ago = 0, recursive = True\<rparr>"

text \<open>
  The long format, and the same file system when neither \<^verbatim>\<open>readlink\<close> nor \<^verbatim>\<open>stat\<close>
  succeeds on any path.
\<close>

definition long_cfg :: config where
  "long_cfg = demo_cfg\<lparr>long_format := True\<rparr>"

definition unreadable_env :: env where
  "unreadable_env = demo_env\<lparr>fs_readlink := \<lambda>p. Inl ''Input/output error'',
     fs_stat := \<lambda>p. Inl ''No such file or directory''\<rparr>"

definition long_root :: string where
  "long_root = replicate 4095 CHR ''/''"

definition open_env :: env where
  "open_env =
    \<lparr>fs_opendir = (\<lambda>p. Inr []),
     fs_lstat = (\<lambda>p. Inr (mk_stat (S_IFDIR OR 493))),
     fs_stat = (\<lambda>p. Inr (mk_stat (S_IFDIR OR 493))),
     fs_readlink = (\<lambda>p. Inl ''Invalid argument''),
     getpwuid = (\<lambda>u. None),
     getgrgid = (\<lambda>g. None),
     localtime = sample_localtime,
     strftime = (\<lambda>fmt tm str. fmt)\<rparr>"

text \<open>
  The tree \<^verbatim>\<open>root/{a/{x},b}\<close> of directories, and a regular file that is setuid.
\<close>

definition tree_env :: env where
  "tree_env =
    \<lparr>fs_opendir = (\<lambda>p. if p = ''root'' then Inr [''a'', ''b'']
                       else if p = ''root/a'' then Inr [''x'']
                       else if p = ''root/a/x'' \<or> p = ''root/b'' then Inr []
                       else Inl ''No such file or directory''),
     fs_lstat = (\<lambda>p. if p = ''root/a'' \<or> p = ''root/b'' \<or> p = ''root/a/x''
                     then Inr (mk_stat (S_IFDIR OR 493))
                     else Inl ''No such file or directory''),
     fs_stat = (\<lambda>p. Inl ''No such file or directory''),
     fs_readlink = (\<lambda>p. Inl ''Invalid argument''),
     getpwuid = (\<lambda>u. None),
     getgrgid = (\<lambda>g. None),
     localtime = sample_localtime,
     strftime = (\<lambda>fmt tm str. fmt)\<rparr>"

definition setuid_file :: mode_t where
  "setuid_file = S_IFREG OR S_ISUID OR 493"

section \<open>Basic facts\<close>

lemmas type_tests = S_ISBLK_def S_ISCHR_def S_ISDIR_def S_ISREG_def S_ISFIFO_def S_ISLNK_def
  S_ISSOCK_def S_IFMT_def S_IFSOCK_def S_IFLNK_def S_IFREG_def S_IFBLK_def S_IFDIR_def
  S_IFCHR_def S_IFIFO_def

lemmas mode_bits = has_bit_def S_ISUID_def S_ISGID_def S_ISVTX_def S_IRUSR_def S_IWUSR_def
  S_IXUSR_def S_IRGRP_def S_IWGRP_def S_IXGRP_def S_IROTH_def S_IWOTH_def S_IXOTH_def
  S_IXUGO_def

lemma world_eqI: "trace v = trace u \<Longrightarrow> dirs v = dirs u \<Longrightarrow> v = (u :: world)"
  by simp

lemma trace_w0 [simp]: "trace w0 = []"
  by (simp add: w0_def)

lemma dirs_w0 [simp]: "dirs w0 = []"
  by (simp add: w0_def)

lemma trace_put [simp]: "trace (put s w) = trace w @ [Stdout s]"
  by (simp add: put_def)

lemma dirs_put [simp]: "dirs (put s w) = dirs w"
  by (simp add: put_def)

lemma trace_eput [simp]: "trace (eput s w) = trace w @ [Stderr s]"
  by (simp add: eput_def)

lemma dirs_eput [simp]: "dirs (eput s w) = dirs w"
  by (simp add: eput_def)

lemma trace_halt [simp]: "trace (halt f w) = trace w @ [Fault f]"
  by (simp add: halt_def)

lemma dirs_halt [simp]: "dirs (halt f w) = dirs w"
  by (simp add: halt_def)

lemma trace_perror [simp]:
  "trace (perror s e w)
     = trace w @ [Stderr ((if s = [] then [] else s @ '': '') @ e @ [CHR 0x0A])]"
  by (simp add: perror_def)

lemma dirs_perror [simp]: "dirs (perror s e w) = dirs w"
  by (simp add: perror_def)

subsection \<open>Printing only appends to the trace\<close>

lemma trace_print_type_indicator:
  "trace (print_type_indicator m w) = trace w @ out (print_type_indicator m)"
  unfolding out_def by (simp add: print_type_indicator_def)

lemma dirs_print_type_indicator [simp]: "dirs (print_type_indicator m w) = dirs w"
  by (simp add: print_type_indicator_def)

lemma trace_print_user: "trace (print_user ev u w) = trace w @ out (print_user ev u)"
  unfolding out_def by (simp add: print_user_def split: option.split)

lemma dirs_print_user [simp]: "dirs (print_user ev u w) = dirs w"
  by (simp add: print_user_def split: option.split)

lemma trace_print_group: "trace (print_group ev g w) = trace w @ out (print_group ev g)"
  unfolding out_def by (simp add: print_group_def split: option.split)

lemma dirs_print_group [simp]: "dirs (print_group ev g w) = dirs w"
  by (simp add: print_group_def split: option.split)

lemma trace_print_name_with_color:
  "trace (print_name_with_color name m ok w) = trace w @ out (print_name_with_color name m ok)"
  unfolding out_def by (simp add: print_name_with_color_def Let_def)

lemma dirs_print_name_with_color [simp]: "dirs (print_name_with_color name m ok w) = dirs w"
  by (simp add: print_name_with_color_def Let_def)

lemma trace_print_long:
  "trace (print_long cfg ev st w) = trace w @ out (print_long cfg ev st)"
  unfolding out_def
  by (simp add: print_long_def Let_def trace_print_user trace_print_group split: sum.split)

lemma dirs_print_long [simp]: "dirs (print_long cfg ev st w) = dirs w"
  by (simp add: print_long_def Let_def split: sum.split)

lemma trace_print_link:
  "trace (print_link cfg n l ok st w) = trace w @ out (print_link cfg n l ok st)"
  unfolding out_def by (simp add: print_link_def Let_def trace_print_name_with_color)

lemma dirs_print_link [simp]: "dirs (print_link cfg n l ok st w) = dirs w"
  by (simp add: print_link_def Let_def)

lemma trace_entry_head:
  "trace (entry_head cfg ev name st ok w) = trace w @ out (entry_head cfg ev name st ok)"
  unfolding out_def
  by (simp add: entry_head_def Let_def trace_print_long trace_print_name_with_color
      trace_print_type_indicator)

lemma dirs_entry_head [simp]: "dirs (entry_head cfg ev name st ok w) = dirs w"
  by (simp add: entry_head_def Let_def)

subsection \<open>One entry, one directory\<close>

lemma list_entry_trace:
  "trace (snd (snd (list_entry cfg ev d pfx name (q, k, w))))
     = trace w @ entry_events cfg ev pfx name"
  unfolding entry_events_def
  by (simp add: list_entry_def Let_def trace_entry_head trace_print_link
      split: sum.split prod.split)

lemma list_entry_dirs: "dirs (snd (snd (list_entry cfg ev d pfx name (q, k, w)))) = dirs w"
  by (simp add: list_entry_def Let_def split: sum.split prod.split)

lemma list_entry_que:
  "fst (list_entry cfg ev d pfx name (base # ins @ rest, length ins, w))
     = base # ins @ subdir_of_entry cfg ev d pfx name @ rest"
  by (simp add: list_entry_def subdir_of_entry_def new_dir_path_def Let_def
      split: sum.split prod.split)

lemma list_entry_subque:
  "fst (snd (list_entry cfg ev d pfx name (base # ins @ rest, length ins, w)))
     = length ins + length (subdir_of_entry cfg ev d pfx name)"
  by (simp add: list_entry_def subdir_of_entry_def new_dir_path_def Let_def
      split: sum.split prod.split)

lemma list_entry_eq:
  "list_entry cfg ev d pfx name (base # ins @ rest, length ins, w)
     = (base # ins @ subdir_of_entry cfg ev d pfx name @ rest,
        length ins + length (subdir_of_entry cfg ev d pfx name),
        \<lparr>trace = trace w @ entry_events cfg ev pfx name, dirs = dirs w\<rparr>)"
proof (intro prod_eqI world_eqI)
  show "fst (list_entry cfg ev d pfx name (base # ins @ rest, length ins, w))
      = fst (base # ins @ subdir_of_entry cfg ev d pfx name @ rest,
        length ins + length (subdir_of_entry cfg ev d pfx name),
        \<lparr>trace = trace w @ entry_events cfg ev pfx name, dirs = dirs w\<rparr>)"
    by (simp add: list_entry_que)
qed (simp_all add: list_entry_subque list_entry_trace list_entry_dirs)

lemma read_loop_eq:
  "read_loop cfg ev d pfx names (base # ins @ rest, length ins, w)
     = (base # ins @ concat (map (subdir_of_entry cfg ev d pfx) names) @ rest,
        length ins + length (concat (map (subdir_of_entry cfg ev d pfx) names)),
        \<lparr>trace = trace w @ concat (map (entry_events cfg ev pfx) names), dirs = dirs w\<rparr>)"
proof (induction names arbitrary: ins w)
  case Nil
  show ?case by simp
next
  case (Cons name names)
  let ?E = "subdir_of_entry cfg ev d pfx name"
  let ?w = "\<lparr>trace = trace w @ entry_events cfg ev pfx name, dirs = dirs w\<rparr>"
  have "read_loop cfg ev d pfx (name # names) (base # ins @ rest, length ins, w)
      = read_loop cfg ev d pfx names (base # (ins @ ?E) @ rest, length (ins @ ?E), ?w)"
    by (simp add: list_entry_eq)
  also have "\<dots> = (base # (ins @ ?E) @ concat (map (subdir_of_entry cfg ev d pfx) names) @ rest,
        length (ins @ ?E) + length (concat (map (subdir_of_entry cfg ev d pfx) names)),
        \<lparr>trace = trace ?w @ concat (map (entry_events cfg ev pfx) names), dirs = dirs ?w\<rparr>)"
    by (rule Cons.IH)
  finally show ?case by simp
qed

lemma list_dir_que: "fst (list_dir cfg ev base rest w) = base # subdirs_of cfg ev base @ rest"
  using read_loop_eq [where ins = "[]"]
  by (simp add: list_dir_def subdirs_of_def Let_def opendir_def split: sum.split)

lemma list_dir_trace: "trace (snd (list_dir cfg ev base rest w)) = trace w @ listing cfg ev base"
  using read_loop_eq [where ins = "[]"]
  by (simp add: list_dir_def listing_def Let_def opendir_def closedir_def split: sum.split)

lemma list_dir_dirs: "dirs (snd (list_dir cfg ev base rest w)) = leaked cfg ev base @ dirs w"
  using read_loop_eq [where ins = "[]"]
  by (simp add: list_dir_def leaked_def Let_def opendir_def closedir_def split: sum.split)

lemma list_dir_eq:
  "list_dir cfg ev base rest w
     = (base # subdirs_of cfg ev base @ rest,
        \<lparr>trace = trace w @ listing cfg ev base, dirs = leaked cfg ev base @ dirs w\<rparr>)"
proof (intro prod_eqI world_eqI)
  show "fst (list_dir cfg ev base rest w)
      = fst (base # subdirs_of cfg ev base @ rest,
        \<lparr>trace = trace w @ listing cfg ev base, dirs = leaked cfg ev base @ dirs w\<rparr>)"
    by (simp add: list_dir_que)
qed (simp_all add: list_dir_trace list_dir_dirs)

lemma read_loop_append:
  "read_loop cfg ev d pfx (xs @ ys) s = read_loop cfg ev d pfx ys (read_loop cfg ev d pfx xs s)"
  by (induction xs arbitrary: s) simp_all

lemma leaked_cases:
  "leaked cfg ev base =
    (case dir_stream ev (path base) of
       Inl e \<Rightarrow> []
     | Inr names \<Rightarrow> if PATH_MAX - 1 \<le> length (path base) then [path base] else [])"
  using read_loop_eq [where ins = "[]" and rest = "[]"]
  by (simp add: leaked_def list_dir_def Let_def opendir_def closedir_def split: sum.split)

lemma listing_open_failure: "dir_stream ev (path base) = Inl e \<Longrightarrow>
   listing cfg ev base = [Stderr ((if path base = [] then [] else path base @ '': '') @ e @ [CHR 0x0A])]"
  by (simp add: listing_def list_dir_def opendir_def)

lemma listing_too_long: "dir_stream ev (path base) = Inr names \<Longrightarrow> PATH_MAX - 1 \<le> length (path base) \<Longrightarrow>
   listing cfg ev base = [Stderr (''too long path'' @ [CHR 0x0A])]"
  by (simp add: listing_def list_dir_def opendir_def)

lemmas sgr_eval = escape_style_def sgr_def plain_def colour_of_def ESC_def

lemma styles:
  "escape_style (ESC # ''[31m'') = Some \<lparr>bold = False, fg = Some Red, bg = None\<rparr>"
  "escape_style (ESC # ''[37;41m'') = Some \<lparr>bold = False, fg = Some White, bg = Some Red\<rparr>"
  "escape_style (ESC # ''[30;43m'') = Some \<lparr>bold = False, fg = Some Black, bg = Some Yellow\<rparr>"
  "escape_style (ESC # ''[01;32m'') = Some \<lparr>bold = True, fg = Some Green, bg = None\<rparr>"
  "escape_style (ESC # ''[0m'') = Some \<lparr>bold = False, fg = None, bg = None\<rparr>"
  by (simp_all add: sgr_eval)




lemma child_path_fits: "length pfx + length name < PATH_MAX \<Longrightarrow> child_path pfx name = pfx @ name"
  by (simp add: child_path_def)

lemma has_path_form_perror: "has_path_form p (p @ '': '' @ e)"
  by (simp add: has_path_form_def)

lemmas ls_eval = list_dir_def opendir_def dir_stream_def closedir_def dir_prefix_def
  list_entry_def child_path_def hidden_def cchar_def dot_or_dotdot_def read_link_def
  entry_head_def print_link_def new_dir_path_def Let_def PATH_MAX_def put_def eput_def
  perror_def w0_def type_tests mode_bits print_type_indicator_def print_name_with_color_def

lemmas demo_eval = demo_env_def demo_cfg_def mk_stat_def

subsection \<open>The driver\<close>

lemma main_loop_step:
  "main_loop (Suc n) cfg ev (head # rest) w
     = main_loop n cfg ev (subdirs_of cfg ev head @ rest)
         \<lparr>trace = trace w @ header head @ listing cfg ev head,
          dirs = leaked cfg ev head @ dirs w\<rparr>"
  by (simp add: list_dir_eq header_def)

lemma main_loop_visited:
  "main_loop n cfg ev q w = Some w' \<Longrightarrow>
     trace w' = trace w @ concat (map (\<lambda>d. header d @ listing cfg ev d) (visited n cfg ev q))
     \<and> subseq q (visited n cfg ev q)"
proof (induction n arbitrary: q w)
  case 0
  then show ?case by (cases q) simp_all
next
  case (Suc n)
  show ?case
  proof (cases q)
    case Nil
    with Suc.prems show ?thesis by simp
  next
    case (Cons head rest)
    let ?w1 = "\<lparr>trace = trace w @ header head @ listing cfg ev head,
                dirs = leaked cfg ev head @ dirs w\<rparr>"
    let ?q1 = "subdirs_of cfg ev head @ rest"
    from Suc.prems Cons have "main_loop n cfg ev ?q1 ?w1 = Some w'"
      by (simp only: main_loop_step)
    from Suc.IH [OF this]
    have tr: "trace w' = trace ?w1
          @ concat (map (\<lambda>d. header d @ listing cfg ev d) (visited n cfg ev ?q1))"
      and sub: "subseq ?q1 (visited n cfg ev ?q1)" by simp_all
    have "subseq rest ?q1" by (simp add: list_emb_append2)
    with sub have "subseq rest (visited n cfg ev ?q1)" using subseq_order.trans by blast
    with tr Cons show ?thesis by simp
  qed
qed

lemma main_loop_more_fuel:
  "main_loop n cfg ev q w = Some w' \<Longrightarrow> main_loop (n + k) cfg ev q w = Some w'"
proof (induction n arbitrary: q w)
  case 0
  then show ?case by (cases q) simp_all
next
  case (Suc n)
  show ?case
  proof (cases q)
    case Nil
    with Suc.prems show ?thesis by simp
  next
    case (Cons head rest)
    with Suc.prems Suc.IH show ?thesis by (simp add: main_loop_step del: main_loop.simps(3))
  qed
qed

lemma main_loop_append:
  "main_loop n1 cfg ev q1 w = Some w1 \<Longrightarrow> main_loop n2 cfg ev q2 w1 = Some w2
    \<Longrightarrow> main_loop (n1 + n2) cfg ev (q1 @ q2) w = Some w2"
proof (induction n1 arbitrary: q1 w)
  case 0
  then have "q1 = []" by (cases q1) simp_all
  with 0 show ?case by simp
next
  case (Suc n1)
  show ?case
  proof (cases q1)
    case Nil
    with Suc.prems have "w1 = w" by simp
    with Suc.prems(2) Nil show ?thesis
      using main_loop_more_fuel [of n2 cfg ev q2 w w2 "Suc n1"] by (simp add: add.commute)
  next
    case (Cons head rest)
    with Suc.prems have "main_loop n1 cfg ev (subdirs_of cfg ev head @ rest)
        \<lparr>trace = trace w @ header head @ listing cfg ev head, dirs = leaked cfg ev head @ dirs w\<rparr> = Some w1"
      by (simp add: main_loop_step del: main_loop.simps(3))
    from Suc.IH [OF this Suc.prems(2)] Cons show ?thesis
      by (simp add: main_loop_step del: main_loop.simps(3))
  qed
qed

lemma length_child_path:
  assumes "name \<noteq> []" "length pfx < PATH_MAX"
  shows "length pfx < length (child_path pfx name)"
  using assms by (cases name) (simp_all add: child_path_def)

lemma length_child_path_le: "length pfx \<le> PATH_MAX \<Longrightarrow> length (child_path pfx name) \<le> PATH_MAX"
  by (simp add: child_path_def)

lemma length_dir_prefix: "length p \<le> length (dir_prefix p)" "length (dir_prefix p) \<le> Suc (length p)"
  by (simp_all add: dir_prefix_def)

lemma subdirs_of_longer:
  assumes "named_entries ev" "c \<in> set (subdirs_of cfg ev d)"
  shows "length (path d) < length (path c)"
proof -
  from assms(2) have short: "\<not> PATH_MAX - 1 \<le> length (path d)"
    by (auto simp: subdirs_of_def split: sum.splits if_splits)
  from assms(2) obtain names where names: "fs_opendir ev (path d) = Inr names"
    by (cases "fs_opendir ev (path d)") (auto simp: subdirs_of_def dir_stream_def split: if_splits)
  with assms(2) short have
    c: "c \<in> set (concat (map (subdir_of_entry cfg ev (depth d) (dir_prefix (path d))) names))"
    by (auto simp: subdirs_of_def dir_stream_def split: if_splits)
  from c obtain name where name: "name \<in> set names"
    and c': "c \<in> set (subdir_of_entry cfg ev (depth d) (dir_prefix (path d)) name)" by auto
  from assms(1) names name have ne: "name \<noteq> []" by (auto simp: named_entries_def)
  from short have lp: "length (dir_prefix (path d)) < PATH_MAX"
    using length_dir_prefix(2) [of "path d"] by simp
  from c' have "path c = take (PATH_MAX + 1) (child_path (dir_prefix (path d)) name)"
    by (auto simp: subdir_of_entry_def split: if_splits sum.splits)
  moreover have "length (child_path (dir_prefix (path d)) name) \<le> PATH_MAX"
    using lp by (intro length_child_path_le) simp
  ultimately have "path c = child_path (dir_prefix (path d)) name" by simp
  with length_child_path [OF ne lp] length_dir_prefix(1) [of "path d"] show ?thesis by simp
qed

lemma subdirs_of_long_Nil: "PATH_MAX - 1 \<le> length (path d) \<Longrightarrow> subdirs_of cfg ev d = []"
  by (simp add: subdirs_of_def split: sum.split)

lemma main_loop_all:
  assumes "\<And>d w. d \<in> set q \<Longrightarrow> \<exists>n w'. main_loop n cfg ev [d] w = Some w'"
  shows "\<exists>n w'. main_loop n cfg ev q w = Some w'"
  using assms
proof (induction q arbitrary: w)
  case Nil
  show ?case by (intro exI [of _ 0]) simp
next
  case (Cons d q)
  from Cons.prems [of d w] obtain n1 w1 where 1: "main_loop n1 cfg ev [d] w = Some w1" by auto
  from Cons.IH [of w1] Cons.prems obtain n2 w2 where 2: "main_loop n2 cfg ev q w1 = Some w2"
    by auto
  from main_loop_append [OF 1 2] show ?case by auto
qed

lemma main_loop_single:
  assumes "named_entries ev"
  shows "PATH_MAX - length (path d) \<le> k \<Longrightarrow> \<exists>n w'. main_loop n cfg ev [d] w = Some w'"
proof (induction k arbitrary: d w)
  case 0
  then have "subdirs_of cfg ev d = []" by (intro subdirs_of_long_Nil) simp
  then have "main_loop (Suc 0) cfg ev [d] w
      = Some \<lparr>trace = trace w @ header d @ listing cfg ev d, dirs = leaked cfg ev d @ dirs w\<rparr>"
    by (simp add: main_loop_step del: main_loop.simps(3))
  then show ?case by blast
next
  case (Suc k)
  let ?w1 = "\<lparr>trace = trace w @ header d @ listing cfg ev d, dirs = leaked cfg ev d @ dirs w\<rparr>"
  have "\<exists>n w'. main_loop n cfg ev (subdirs_of cfg ev d) ?w1 = Some w'"
  proof (rule main_loop_all)
    fix c v assume c: "c \<in> set (subdirs_of cfg ev d)"
    from subdirs_of_longer [OF assms c] Suc.prems have "PATH_MAX - length (path c) \<le> k"
      by simp
    then show "\<exists>n w'. main_loop n cfg ev [c] v = Some w'" by (rule Suc.IH)
  qed
  then obtain n w' where "main_loop n cfg ev (subdirs_of cfg ev d) ?w1 = Some w'" by auto
  then have "main_loop (Suc n) cfg ev [d] w = Some w'"
    by (simp add: main_loop_step del: main_loop.simps(3))
  then show ?case by blast
qed

lemma main_loop_returns:
  assumes "named_entries ev"
  shows "\<exists>n w'. main_loop n cfg ev q w = Some w'"
  by (rule main_loop_all) (rule main_loop_single [OF assms order_refl])

subsection \<open>Further facts about one directory\<close>

lemma dir_stream_open_env: "p \<noteq> [] \<Longrightarrow> dir_stream open_env p = Inr []"
  by (simp add: dir_stream_def open_env_def)

lemma long_root_facts: "long_root \<noteq> []" "length long_root = 4095"
  by (simp_all add: long_root_def)

lemma list_dir_releases:
  "dir_stream ev (path base) = Inl e \<or> length (path base) < PATH_MAX - 1
    \<Longrightarrow> dirs (snd (list_dir cfg ev base rest w)) = dirs w"
  by (auto simp: list_dir_dirs leaked_cases split: sum.split)

lemma list_dir_keeps_open:
  "dir_stream ev (path base) = Inr names \<Longrightarrow> PATH_MAX - 1 \<le> length (path base)
    \<Longrightarrow> dirs (snd (list_dir cfg ev base rest w)) = path base # dirs w"
  by (simp add: list_dir_dirs leaked_cases)

lemma lnk_not_dir: "S_ISLNK m \<Longrightarrow> \<not> S_ISDIR m"
  by (simp add: type_tests)

lemma subdir_of_entry_lstat:
  assumes "c \<in> set (subdir_of_entry cfg ev d pfx name)" "length pfx \<le> PATH_MAX"
  shows "\<exists>st. fs_lstat ev (path c) = Inr st \<and> S_ISDIR (st_mode st) \<and> \<not> S_ISLNK (st_mode st)"
proof -
  have "take (PATH_MAX + 1) (child_path pfx name) = child_path pfx name"
    using length_child_path_le [OF assms(2), of name] by simp
  with assms(1) show ?thesis
    by (cases "fs_lstat ev (child_path pfx name)")
       (auto simp: subdir_of_entry_def lnk_not_dir split: if_splits)
qed

lemma subdirs_of_lstat:
  assumes "c \<in> set (subdirs_of cfg ev base)"
  shows "\<exists>st. fs_lstat ev (path c) = Inr st \<and> S_ISDIR (st_mode st) \<and> \<not> S_ISLNK (st_mode st)"
proof -
  from assms have short: "\<not> PATH_MAX - 1 \<le> length (path base)"
    by (auto simp: subdirs_of_def split: sum.splits if_splits)
  then have "length (dir_prefix (path base)) \<le> PATH_MAX"
    using length_dir_prefix(2) [of "path base"] by simp
  moreover from assms obtain name where
    "c \<in> set (subdir_of_entry cfg ev (depth base) (dir_prefix (path base)) name)"
    by (auto simp: subdirs_of_def split: sum.splits if_splits)
  ultimately show ?thesis by (rule subdir_of_entry_lstat [rotated])
qed

lemma read_link_eq:
  "read_link ev p m =
    (if S_ISLNK m
     then (case fs_readlink ev p of Inl e \<Rightarrow> - 1 | Inr t \<Rightarrow> int (length (take PATH_MAX t)),
           link_target ev p, link_resolves ev p,
           case fs_stat ev p of Inl e \<Rightarrow> None | Inr s \<Rightarrow> Some s)
     else (0, [], True, None))"
  by (simp add: read_link_def link_target_def link_resolves_def Let_def split: sum.split)

lemma listing_names:
  assumes "dir_stream ev (path base) = Inr names" "length (path base) < PATH_MAX - 1"
  shows "listing cfg ev base = concat (map (entry_events cfg ev (dir_prefix (path base))) names)"
  using assms read_loop_eq [where ins = "[]" and rest = "[]"]
  by (simp add: listing_def list_dir_def opendir_def closedir_def Let_def)

lemma subdirs_of_names:
  assumes "dir_stream ev (path base) = Inr names" "length (path base) < PATH_MAX - 1"
  shows "subdirs_of cfg ev base
    = concat (map (subdir_of_entry cfg ev (depth base) (dir_prefix (path base))) names)"
  using assms by (simp add: subdirs_of_def)

lemma subdirs_of_depth: "c \<in> set (subdirs_of cfg ev base) \<Longrightarrow> depth c = depth base + 1"
  by (auto simp: subdirs_of_def subdir_of_entry_def split: sum.splits if_splits)

section \<open>The claims\<close>

text \<open>
  C1. The traversal order. Listing a directory puts the nodes of its subdirectories
  into the queue right behind the directory's own node and in front of everything that
  followed it, in the order in which the entries were read; each new node is one level
  deeper than the directory. The output of a run is, directory by directory in the order
  in which the driver takes them from the queue, the header of the directory and then its
  listing, which is the output for its entries in the order read. The driver takes a
  directory, then what that directory put into the queue, then what followed it: so the
  entries of a directory are all written before any of its subdirectories is listed, and
  the directories that stand in the queue together are visited in their order there,
  which for the subdirectories of one parent is the order in which their entries were
  read. The header is the line \<^verbatim>\<open>\n<path>:\n\<close> when the depth is not 0, in particular
  when it is greater than 0, and nothing when it is 0, which is the depth of the root.
  The run ends when no directory holds an entry with an empty name.
\<close>

theorem traversal_order:
  "fst (list_dir cfg ev base rest w) = base # subdirs_of cfg ev base @ rest
   \<and> (\<forall>c \<in> set (subdirs_of cfg ev base). depth c = depth base + 1)
   \<and> (dir_stream ev (path base) = Inr names \<and> length (path base) < PATH_MAX - 1 \<longrightarrow>
        subdirs_of cfg ev base
          = concat (map (subdir_of_entry cfg ev (depth base) (dir_prefix (path base))) names)
        \<and> listing cfg ev base
          = concat (map (entry_events cfg ev (dir_prefix (path base))) names))
   \<and> (named_entries ev \<longrightarrow> (\<exists>k v. main_loop k cfg ev q w = Some v))
   \<and> (main_loop n cfg ev q w = Some w' \<longrightarrow>
        trace w' = trace w
          @ concat (map (\<lambda>d. header d @ listing cfg ev d) (visited n cfg ev q))
        \<and> subseq q (visited n cfg ev q))
   \<and> visited (Suc n) cfg ev (base # rest)
       = base # visited n cfg ev (subdirs_of cfg ev base @ rest)
   \<and> header base
       = (if depth base \<noteq> 0 then [Stdout ([CHR 0x0A] @ path base @ '':'' @ [CHR 0x0A])] else [])
   \<and> (0 <s depth base \<longrightarrow> header base \<noteq> [])
   \<and> ls_main n cfg ev root
       = main_loop n cfg ev [\<lparr>path = take (PATH_MAX + 1) root, depth = 0\<rparr>] w0"
proof (intro conjI impI ballI)
  show "fst (list_dir cfg ev base rest w) = base # subdirs_of cfg ev base @ rest"
    by (rule list_dir_que)
  show "depth c = depth base + 1" if "c \<in> set (subdirs_of cfg ev base)" for c
    using that by (rule subdirs_of_depth)
  show "subdirs_of cfg ev base
      = concat (map (subdir_of_entry cfg ev (depth base) (dir_prefix (path base))) names)"
    if "dir_stream ev (path base) = Inr names \<and> length (path base) < PATH_MAX - 1"
    using that by (simp add: subdirs_of_names)
  show "listing cfg ev base = concat (map (entry_events cfg ev (dir_prefix (path base))) names)"
    if "dir_stream ev (path base) = Inr names \<and> length (path base) < PATH_MAX - 1"
    using that by (simp add: listing_names)
  show "\<exists>k v. main_loop k cfg ev q w = Some v" if "named_entries ev"
    using that by (rule main_loop_returns)
  show "trace w' = trace w
      @ concat (map (\<lambda>d. header d @ listing cfg ev d) (visited n cfg ev q))"
    if "main_loop n cfg ev q w = Some w'"
    using main_loop_visited [OF that] by simp
  show "subseq q (visited n cfg ev q)" if "main_loop n cfg ev q w = Some w'"
    using main_loop_visited [OF that] by simp
  show "visited (Suc n) cfg ev (base # rest)
      = base # visited n cfg ev (subdirs_of cfg ev base @ rest)"
    by simp
  show "header base
      = (if depth base \<noteq> 0 then [Stdout ([CHR 0x0A] @ path base @ '':'' @ [CHR 0x0A])] else [])"
    by (simp add: header_def)
  show "header base \<noteq> []" if "0 <s depth base"
    using that by (auto simp: header_def)
  show "ls_main n cfg ev root
      = main_loop n cfg ev [\<lparr>path = take (PATH_MAX + 1) root, depth = 0\<rparr>] w0"
    by (simp add: ls_main_def new_dir_path_def w0_def)
qed

theorem traversal_order_witness:
  "dir_stream tree_env (path \<lparr>path = ''root'', depth = 0\<rparr>) = Inr [''a'', ''b'']
   \<and> length (path \<lparr>path = ''root'', depth = 0\<rparr>) < PATH_MAX - 1
   \<and> subdirs_of demo_cfg tree_env \<lparr>path = ''root'', depth = 0\<rparr>
       = [\<lparr>path = ''root/a'', depth = 1\<rparr>, \<lparr>path = ''root/b'', depth = 1\<rparr>]
   \<and> fst (list_dir demo_cfg tree_env \<lparr>path = ''root/a'', depth = 1\<rparr>
         [\<lparr>path = ''root/b'', depth = 1\<rparr>] w0)
       = [\<lparr>path = ''root/a'', depth = 1\<rparr>, \<lparr>path = ''root/a/x'', depth = 2\<rparr>,
          \<lparr>path = ''root/b'', depth = 1\<rparr>]
   \<and> named_entries tree_env
   \<and> ls_main (Suc (Suc (Suc (Suc 0)))) demo_cfg tree_env ''root''
       = Some \<lparr>trace =
           [Stdout ''a'', Stdout [CHR 0x0A], Stdout ''b'', Stdout [CHR 0x0A],
            Stdout ([CHR 0x0A] @ ''root/a:'' @ [CHR 0x0A]),
            Stdout ''x'', Stdout [CHR 0x0A],
            Stdout ([CHR 0x0A] @ ''root/a/x:'' @ [CHR 0x0A]),
            Stdout ([CHR 0x0A] @ ''root/b:'' @ [CHR 0x0A])],
          dirs = []\<rparr>
   \<and> visited (Suc (Suc (Suc (Suc 0)))) demo_cfg tree_env [\<lparr>path = ''root'', depth = 0\<rparr>]
       = [\<lparr>path = ''root'', depth = 0\<rparr>, \<lparr>path = ''root/a'', depth = 1\<rparr>,
          \<lparr>path = ''root/a/x'', depth = 2\<rparr>, \<lparr>path = ''root/b'', depth = 1\<rparr>]
   \<and> concat (map (\<lambda>d. header d @ listing demo_cfg tree_env d)
         [\<lparr>path = ''root'', depth = 0\<rparr>, \<lparr>path = ''root/a'', depth = 1\<rparr>,
          \<lparr>path = ''root/a/x'', depth = 2\<rparr>, \<lparr>path = ''root/b'', depth = 1\<rparr>])
       = [Stdout ''a'', Stdout [CHR 0x0A], Stdout ''b'', Stdout [CHR 0x0A],
          Stdout ([CHR 0x0A] @ ''root/a:'' @ [CHR 0x0A]),
          Stdout ''x'', Stdout [CHR 0x0A],
          Stdout ([CHR 0x0A] @ ''root/a/x:'' @ [CHR 0x0A]),
          Stdout ([CHR 0x0A] @ ''root/b:'' @ [CHR 0x0A])]
   \<and> header \<lparr>path = ''root'', depth = 0\<rparr> = []
   \<and> 0 <s depth \<lparr>path = ''root/a'', depth = 1\<rparr>
   \<and> header \<lparr>path = ''root/a'', depth = 1\<rparr> = [Stdout ([CHR 0x0A] @ ''root/a:'' @ [CHR 0x0A])]"
proof -
  let ?r = "\<lparr>path = ''root'', depth = 0\<rparr>"
  let ?a = "\<lparr>path = ''root/a'', depth = 1\<rparr>"
  let ?x = "\<lparr>path = ''root/a/x'', depth = 2\<rparr>"
  let ?b = "\<lparr>path = ''root/b'', depth = 1\<rparr>"
  let ?n = "Suc (Suc (Suc (Suc 0)))"
  let ?t = "[Stdout ''a'', Stdout [CHR 0x0A], Stdout ''b'', Stdout [CHR 0x0A],
            Stdout ([CHR 0x0A] @ ''root/a:'' @ [CHR 0x0A]),
            Stdout ''x'', Stdout [CHR 0x0A],
            Stdout ([CHR 0x0A] @ ''root/a/x:'' @ [CHR 0x0A]),
            Stdout ([CHR 0x0A] @ ''root/b:'' @ [CHR 0x0A])]"
  have h1: "dir_stream tree_env (path ?r) = Inr [''a'', ''b'']"
    by (simp add: dir_stream_def tree_env_def)
  have h2: "length (path ?r) < PATH_MAX - 1"
    by (simp add: PATH_MAX_def)
  have run: "ls_main ?n demo_cfg tree_env ''root'' = Some \<lparr>trace = ?t, dirs = []\<rparr>"
    by (simp add: ls_main_def ls_eval tree_env_def demo_eval)
  have s: "subdirs_of demo_cfg tree_env ?r = [?a, ?b]"
    "subdirs_of demo_cfg tree_env ?a = [?x]"
    "subdirs_of demo_cfg tree_env ?x = []" "subdirs_of demo_cfg tree_env ?b = []"
    by (simp_all add: subdirs_of_def subdir_of_entry_def ls_eval tree_env_def demo_eval)
  have v: "visited ?n demo_cfg tree_env [?r] = [?r, ?a, ?x, ?b]"
    by (simp add: s)
  have pos: "0 <s depth ?a"
    by (simp add: word_sless_alt)
  note c = traversal_order [where cfg = demo_cfg and ev = tree_env and names = "[''a'', ''b'']"
      and n = ?n and q = "[?r]" and w = w0 and w' = "\<lparr>trace = ?t, dirs = []\<rparr>"
      and root = "''root''"]
  have h3: "named_entries tree_env"
    by (auto simp: named_entries_def tree_env_def split: if_splits)
  from h3 c [where base = ?r] have "\<exists>k v. main_loop k demo_cfg tree_env [?r] w0 = Some v"
    by blast
  have main: "main_loop ?n demo_cfg tree_env [?r] w0 = Some \<lparr>trace = ?t, dirs = []\<rparr>"
    using run c [where base = ?r] by (simp add: PATH_MAX_def)
  have w1: "fst (list_dir demo_cfg tree_env ?a [?b] w0) = [?a, ?x, ?b]"
    using c [where base = ?a and rest = "[?b]"] s by simp
  have w2: "concat (map (\<lambda>d. header d @ listing demo_cfg tree_env d) [?r, ?a, ?x, ?b]) = ?t"
    using c [where base = ?r] main v by simp
  have w3: "header ?r = []"
    using c [where base = ?r] by simp
  have w4: "header ?a = [Stdout ([CHR 0x0A] @ ''root/a:'' @ [CHR 0x0A])]"
    using c [where base = ?a] by simp
  from h1 h2 h3 s(1) w1 run v w2 w3 pos w4 show ?thesis by blast
qed

text \<open>
  C2. The name filter, for every entry name (a C string) and every policy: under
  \<open>FILTER_DEFAULT\<close> the name is hidden if and only if it starts with a dot; under
  \<open>FILTER_ALMOST\<close> it is hidden if and only if it is \<^verbatim>\<open>.\<close> or \<^verbatim>\<open>..\<close>; under
  \<open>FILTER_ALL\<close> no name is hidden.
\<close>

theorem name_filter:
  "(hidden FILTER_DEFAULT name \<longleftrightarrow> name \<noteq> [] \<and> hd name = CHR ''.'')
   \<and> (CHR 0x00 \<notin> set name \<longrightarrow>
        (hidden FILTER_ALMOST name \<longleftrightarrow> name = ''.'' \<or> name = ''..''))
   \<and> \<not> hidden FILTER_ALL name"
proof (intro conjI impI)
  show "hidden FILTER_DEFAULT name \<longleftrightarrow> name \<noteq> [] \<and> hd name = CHR ''.''"
    by (cases name) (auto simp: hidden_def cchar_def)
  show "\<not> hidden FILTER_ALL name"
    by (simp add: hidden_def)
  assume nul: "CHR 0x00 \<notin> set name"
  show "hidden FILTER_ALMOST name \<longleftrightarrow> name = ''.'' \<or> name = ''..''"
  proof (cases name)
    case Nil
    then show ?thesis by (simp add: hidden_def cchar_def)
  next
    case outer: (Cons a as)
    show ?thesis
    proof (cases as)
      case Nil
      with outer show ?thesis by (auto simp: hidden_def cchar_def)
    next
      case (Cons b bs)
      with outer nul show ?thesis by (cases bs) (auto simp: hidden_def cchar_def)
    qed
  qed
qed

theorem name_filter_witness:
  "CHR 0x00 \<notin> set ''.'' \<and> hidden FILTER_ALMOST ''.'' \<and> hidden FILTER_DEFAULT ''.''
   \<and> CHR 0x00 \<notin> set ''..'' \<and> hidden FILTER_ALMOST ''..'' \<and> hidden FILTER_DEFAULT ''..''
   \<and> CHR 0x00 \<notin> set ''.hidden'' \<and> \<not> hidden FILTER_ALMOST ''.hidden''
       \<and> hidden FILTER_DEFAULT ''.hidden''
   \<and> CHR 0x00 \<notin> set ''..name'' \<and> \<not> hidden FILTER_ALMOST ''..name''
       \<and> hidden FILTER_DEFAULT ''..name''
   \<and> CHR 0x00 \<notin> set ''...'' \<and> \<not> hidden FILTER_ALMOST ''...'' \<and> hidden FILTER_DEFAULT ''...''
   \<and> CHR 0x00 \<notin> set ''visible'' \<and> \<not> hidden FILTER_ALMOST ''visible''
       \<and> \<not> hidden FILTER_DEFAULT ''visible''
   \<and> \<not> hidden FILTER_ALL ''.'' \<and> \<not> hidden FILTER_ALL ''..''"
  using name_filter [of "''.''"] name_filter [of "''..''"] name_filter [of "''.hidden''"]
    name_filter [of "''..name''"] name_filter [of "''...''"] name_filter [of "''visible''"]
  by simp

text \<open>
  C3. For every mode value \<^verbatim>\<open>get_mode_string\<close> produces exactly ten characters. The
  first is the glyph of the file type, one of \<^verbatim>\<open>b c d - p l s ?\<close>: each of the seven
  types has its glyph, whatever the order of the tests, and \<^verbatim>\<open>?\<close> stands for any other
  type. Nine slots follow, \<^verbatim>\<open>rwx\<close> for owner, group and others. The owner's execute slot
  shows \<^verbatim>\<open>s\<close> (execute bit set) or \<^verbatim>\<open>S\<close> (not set) when the mode has the setuid bit,
  the group's shows \<^verbatim>\<open>s\<close> or \<^verbatim>\<open>S\<close> for setgid, the others' shows \<^verbatim>\<open>t\<close> or \<^verbatim>\<open>T\<close> for
  the sticky bit; without the special bit the slot shows \<^verbatim>\<open>x\<close> or \<^verbatim>\<open>-\<close>.
\<close>

theorem get_mode_string_format:
  "length (get_mode_string m) = 10
   \<and> get_mode_string m ! 0 \<in> {CHR ''b'', CHR ''c'', CHR ''d'', CHR ''-'', CHR ''p'',
        CHR ''l'', CHR ''s'', CHR ''?''}
   \<and> (S_ISBLK m \<longrightarrow> get_mode_string m ! 0 = CHR ''b'')
   \<and> (S_ISCHR m \<longrightarrow> get_mode_string m ! 0 = CHR ''c'')
   \<and> (S_ISDIR m \<longrightarrow> get_mode_string m ! 0 = CHR ''d'')
   \<and> (S_ISREG m \<longrightarrow> get_mode_string m ! 0 = CHR ''-'')
   \<and> (S_ISFIFO m \<longrightarrow> get_mode_string m ! 0 = CHR ''p'')
   \<and> (S_ISLNK m \<longrightarrow> get_mode_string m ! 0 = CHR ''l'')
   \<and> (S_ISSOCK m \<longrightarrow> get_mode_string m ! 0 = CHR ''s'')
   \<and> (\<not> (S_ISBLK m \<or> S_ISCHR m \<or> S_ISDIR m \<or> S_ISREG m \<or> S_ISFIFO m \<or> S_ISLNK m
          \<or> S_ISSOCK m) \<longrightarrow> get_mode_string m ! 0 = CHR ''?'')
   \<and> get_mode_string m ! 1 = (if has_bit m S_IRUSR then CHR ''r'' else CHR ''-'')
   \<and> get_mode_string m ! 2 = (if has_bit m S_IWUSR then CHR ''w'' else CHR ''-'')
   \<and> get_mode_string m ! 3 =
        (if has_bit m S_ISUID then (if has_bit m S_IXUSR then CHR ''s'' else CHR ''S'')
         else (if has_bit m S_IXUSR then CHR ''x'' else CHR ''-''))
   \<and> get_mode_string m ! 4 = (if has_bit m S_IRGRP then CHR ''r'' else CHR ''-'')
   \<and> get_mode_string m ! 5 = (if has_bit m S_IWGRP then CHR ''w'' else CHR ''-'')
   \<and> get_mode_string m ! 6 =
        (if has_bit m S_ISGID then (if has_bit m S_IXGRP then CHR ''s'' else CHR ''S'')
         else (if has_bit m S_IXGRP then CHR ''x'' else CHR ''-''))
   \<and> get_mode_string m ! 7 = (if has_bit m S_IROTH then CHR ''r'' else CHR ''-'')
   \<and> get_mode_string m ! 8 = (if has_bit m S_IWOTH then CHR ''w'' else CHR ''-'')
   \<and> get_mode_string m ! 9 =
        (if has_bit m S_ISVTX then (if has_bit m S_IXOTH then CHR ''t'' else CHR ''T'')
         else (if has_bit m S_IXOTH then CHR ''x'' else CHR ''-''))"
  by (simp add: get_mode_string_def type_tests)

theorem get_mode_string_format_witness:
  "S_ISREG 0x89ED \<and> has_bit 0x89ED S_ISUID \<and> has_bit 0x89ED S_IXUSR
   \<and> \<not> has_bit 0x89ED S_ISGID \<and> \<not> has_bit 0x89ED S_ISVTX
   \<and> get_mode_string 0x89ED = ''-rwsr-xr-x''
   \<and> S_ISDIR 0x47B6 \<and> get_mode_string 0x47B6 = ''drw-rwSrwT''
   \<and> S_ISLNK 0xA1FF \<and> get_mode_string 0xA1FF = ''lrwxrwxrwx''
   \<and> S_ISBLK 0x61B0 \<and> get_mode_string 0x61B0 = ''brw-rw----''
   \<and> S_ISCHR 0x2190 \<and> get_mode_string 0x2190 = ''crw--w----''
   \<and> S_ISFIFO 0x11A4 \<and> get_mode_string 0x11A4 = ''prw-r--r--''
   \<and> S_ISSOCK 0xC1ED \<and> get_mode_string 0xC1ED = ''srwxr-xr-x''
   \<and> \<not> (S_ISBLK 0 \<or> S_ISCHR 0 \<or> S_ISDIR 0 \<or> S_ISREG 0 \<or> S_ISFIFO 0 \<or> S_ISLNK 0 \<or> S_ISSOCK 0)
   \<and> get_mode_string 0 = ''?---------''"
  using get_mode_string_format [of "0x89ED"] get_mode_string_format [of "0x47B6"]
    get_mode_string_format [of "0xA1FF"] get_mode_string_format [of "0x61B0"]
    get_mode_string_format [of "0x2190"] get_mode_string_format [of "0x11A4"]
    get_mode_string_format [of "0xC1ED"] get_mode_string_format [of 0]
  by (simp add: get_mode_string_def type_tests mode_bits)




text \<open>
  C5, as the claim states it: a regular file with the setuid bit, whose link is not
  broken, would be styled bold red on a white background. The sequence that
  \<^verbatim>\<open>print_name_with_color\<close> writes for it is \<^verbatim>\<open>ESC [37;41m\<close>, which is another style.
\<close>

theorem setuid_style_counterexample:
  "S_ISREG setuid_file \<and> has_bit setuid_file S_ISUID
   \<and> trace (print_name_with_color ''su'' setuid_file True w0)
       = [Stdout (ESC # ''[37;41m''), Stdout ''su'', Stdout (ESC # ''[0m'')]
   \<and> escape_style (ESC # ''[37;41m'') \<noteq> Some \<lparr>bold = True, fg = Some Red, bg = Some White\<rparr>"
  by (simp add: print_name_with_color_def setuid_file_def type_tests mode_bits sgr_eval)

text \<open>
  C5, amended. In color mode, for every mode and every \<^verbatim>\<open>link_ok\<close>: when \<^verbatim>\<open>link_ok\<close> is
  false the name is written in red foreground (\<^verbatim>\<open>ESC [31m\<close>) whatever the mode, so the
  broken-link rule comes before every rule by type; otherwise a regular file is written
  white on a red background (\<^verbatim>\<open>ESC [37;41m\<close>, not bold) if it is setuid, else black on a
  yellow background if it is setgid, else bold green if any execute bit is set, else in
  the reset style. The name follows the sequence, and a reset follows the name.
\<close>

theorem color_precedence:
  "(\<not> link_ok \<longrightarrow>
      trace (print_name_with_color name m link_ok w)
        = trace w @ [Stdout (ESC # ''[31m''), Stdout name, Stdout (ESC # ''[0m'')])
   \<and> (link_ok \<and> S_ISREG m \<longrightarrow>
      trace (print_name_with_color name m link_ok w)
        = trace w @ [Stdout (ESC #
                       (if has_bit m S_ISUID then ''[37;41m''
                        else if has_bit m S_ISGID then ''[30;43m''
                        else if has_bit m S_IXUGO then ''[01;32m''
                        else ''[0m'')),
                     Stdout name, Stdout (ESC # ''[0m'')])
   \<and> escape_style (ESC # ''[31m'') = Some \<lparr>bold = False, fg = Some Red, bg = None\<rparr>
   \<and> escape_style (ESC # ''[37;41m'') = Some \<lparr>bold = False, fg = Some White, bg = Some Red\<rparr>
   \<and> escape_style (ESC # ''[30;43m'') = Some \<lparr>bold = False, fg = Some Black, bg = Some Yellow\<rparr>
   \<and> escape_style (ESC # ''[01;32m'') = Some \<lparr>bold = True, fg = Some Green, bg = None\<rparr>
   \<and> escape_style (ESC # ''[0m'') = Some plain"
proof -
  have 1: "\<not> link_ok \<longrightarrow>
      trace (print_name_with_color name m link_ok w)
        = trace w @ [Stdout (ESC # ''[31m''), Stdout name, Stdout (ESC # ''[0m'')]"
    by (simp add: print_name_with_color_def)
  have 2: "link_ok \<and> S_ISREG m \<longrightarrow>
      trace (print_name_with_color name m link_ok w)
        = trace w @ [Stdout (ESC #
                       (if has_bit m S_ISUID then ''[37;41m''
                        else if has_bit m S_ISGID then ''[30;43m''
                        else if has_bit m S_IXUGO then ''[01;32m''
                        else ''[0m'')),
                     Stdout name, Stdout (ESC # ''[0m'')]"
    by (simp add: print_name_with_color_def)
  show ?thesis using 1 2 by (simp add: styles) (simp add: plain_def)
qed

theorem color_precedence_witness:
  "trace (print_name_with_color ''su'' setuid_file False w0)
     = [Stdout (ESC # ''[31m''), Stdout ''su'', Stdout (ESC # ''[0m'')]
   \<and> S_ISREG setuid_file
   \<and> trace (print_name_with_color ''su'' setuid_file True w0)
     = [Stdout (ESC # ''[37;41m''), Stdout ''su'', Stdout (ESC # ''[0m'')]
   \<and> S_ISREG (S_IFREG OR S_ISGID OR 493)
   \<and> trace (print_name_with_color ''sg'' (S_IFREG OR S_ISGID OR 493) True w0)
     = [Stdout (ESC # ''[30;43m''), Stdout ''sg'', Stdout (ESC # ''[0m'')]
   \<and> S_ISREG (S_IFREG OR 493)
   \<and> trace (print_name_with_color ''x'' (S_IFREG OR 493) True w0)
     = [Stdout (ESC # ''[01;32m''), Stdout ''x'', Stdout (ESC # ''[0m'')]
   \<and> S_ISREG (S_IFREG OR 420)
   \<and> trace (print_name_with_color ''f'' (S_IFREG OR 420) True w0)
     = [Stdout (ESC # ''[0m''), Stdout ''f'', Stdout (ESC # ''[0m'')]"
  using color_precedence [of False "''su''" setuid_file w0]
    color_precedence [of True "''su''" setuid_file w0]
    color_precedence [of True "''sg''" "S_IFREG OR S_ISGID OR 493" w0]
    color_precedence [of True "''x''" "S_IFREG OR 493" w0]
    color_precedence [of True "''f''" "S_IFREG OR 420" w0]
  by (simp add: setuid_file_def type_tests mode_bits)

text \<open>
  C6. A directory whose path has \<^verbatim>\<open>PATH_MAX - 1\<close> characters and which \<^verbatim>\<open>opendir\<close> opens:
  \<^verbatim>\<open>list_dir\<close> returns at the length check without \<^verbatim>\<open>closedir\<close>, so the directory
  stream is still open when the driver goes on, and when the run ends.
\<close>

theorem too_long_path_leaks_stream:
  "dir_stream open_env long_root = Inr []
   \<and> length long_root = PATH_MAX - 1
   \<and> list_dir demo_cfg open_env \<lparr>path = long_root, depth = 0\<rparr> [] w0
       = ([\<lparr>path = long_root, depth = 0\<rparr>],
          \<lparr>trace = [Stderr (''too long path'' @ [CHR 0x0A])], dirs = [long_root]\<rparr>)
   \<and> ls_main (Suc 0) demo_cfg open_env long_root
       = Some \<lparr>trace = [Stderr (''too long path'' @ [CHR 0x0A])], dirs = [long_root]\<rparr>"
proof -
  have 1: "dir_stream open_env long_root = Inr []"
    by (simp add: dir_stream_open_env long_root_facts)
  have 2: "length long_root = PATH_MAX - 1"
    by (simp add: long_root_facts PATH_MAX_def)
  have 3: "list_dir cfg open_env \<lparr>path = long_root, depth = 0\<rparr> [] w
       = ([\<lparr>path = long_root, depth = 0\<rparr>],
          \<lparr>trace = trace w @ [Stderr (''too long path'' @ [CHR 0x0A])], dirs = long_root # dirs w\<rparr>)" for cfg w
    by (simp add: list_dir_def opendir_def 1 2 eput_def)
  have 4: "take (PATH_MAX + 1) long_root = long_root"
    by (simp add: long_root_facts PATH_MAX_def)
  show ?thesis
    by (simp add: 1 2 3 4 ls_main_def new_dir_path_def)
qed

text \<open>
  C7, as the claim states it: a directory that cannot be opened would produce a
  diagnostic that refers to its path. The program started on the empty path, which
  \<^verbatim>\<open>opendir\<close> does not open, writes the reason alone: \<^verbatim>\<open>perror\<close> puts no prefix in front
  of the reason when its argument is the empty string.
\<close>

theorem empty_path_diagnostic_counterexample:
  "dir_stream demo_env [] = Inl ''No such file or directory''
   \<and> ls_main (Suc 0) demo_cfg demo_env []
       = Some \<lparr>trace = [Stderr (''No such file or directory'' @ [CHR 0x0A])], dirs = []\<rparr>
   \<and> \<not> has_path_form [] (''No such file or directory'' @ [CHR 0x0A])"
  by (simp add: ls_main_def ls_eval has_path_form_def)

text \<open>
  C7, amended. Errors stay where they are detected. When \<^verbatim>\<open>lstat\<close> fails on an entry
  that the filter lets through and whose name fits the path buffer (the directory's
  path with its slash and the name have fewer than \<^verbatim>\<open>PATH_MAX\<close> characters together),
  the loop body writes one diagnostic to standard error with \<^verbatim>\<open>perror\<close> on the entry's
  path, writes nothing to standard output, adds nothing to the queue, and the loop goes
  on with the entries that follow as it does after any other entry: the listing of the
  directory is what the entries in front write, then the one line
  \<^verbatim>\<open><directory>/<name>: <reason>\<close>, then what the entries behind write, and the queue
  gets the nodes of the entries in front and behind. When the directory cannot be
  opened, \<^verbatim>\<open>list_dir\<close> writes one diagnostic with \<^verbatim>\<open>perror\<close> on the directory's path and
  leaves the queue as it is, and the driver goes on with the directories behind it.
  When the directory opens but its path is too long, \<^verbatim>\<open>list_dir\<close> writes one line to
  standard error and leaves the queue as it is, and the driver goes on in the same way.
  A diagnostic of \<^verbatim>\<open>perror\<close> is one line: the path, a colon, a blank and the reason when
  the path is not empty, and the reason alone when it is empty.
\<close>

theorem recoverable_errors_are_local:
  "(\<not> hidden (filter_cfg cfg) name \<and> length pfx + length name < PATH_MAX
      \<and> fs_lstat ev (pfx @ name) = Inl e \<longrightarrow>
      list_entry cfg ev d pfx name (que, subque, w) = (que, subque, perror (pfx @ name) e w)
      \<and> read_loop cfg ev d pfx (before @ name # after) (que, subque, w)
        = read_loop cfg ev d pfx after
            (case read_loop cfg ev d pfx before (que, subque, w) of
               (q, k, v) \<Rightarrow> (q, k, perror (pfx @ name) e v)))
   \<and> (dir_stream ev (path base) = Inr (before @ name # after)
      \<and> length (path base) < PATH_MAX - 1
      \<and> \<not> hidden (filter_cfg cfg) name
      \<and> length (dir_prefix (path base)) + length name < PATH_MAX
      \<and> fs_lstat ev (dir_prefix (path base) @ name) = Inl e \<longrightarrow>
      listing cfg ev base
        = concat (map (entry_events cfg ev (dir_prefix (path base))) before)
          @ [Stderr (dir_prefix (path base) @ name @ '': '' @ e @ [CHR 0x0A])]
          @ concat (map (entry_events cfg ev (dir_prefix (path base))) after)
      \<and> subdirs_of cfg ev base
        = concat (map (subdir_of_entry cfg ev (depth base) (dir_prefix (path base))) before)
          @ concat (map (subdir_of_entry cfg ev (depth base) (dir_prefix (path base))) after)
      \<and> has_path_form (dir_prefix (path base) @ name)
          (dir_prefix (path base) @ name @ '': '' @ e @ [CHR 0x0A]))
   \<and> (dir_stream ev (path base) = Inl e \<longrightarrow>
      list_dir cfg ev base rest w = (base # rest, perror (path base) e w)
      \<and> main_loop (Suc n) cfg ev (base # rest) w
        = main_loop n cfg ev rest
            (perror (path base) e
              (if depth base \<noteq> 0 then put ([CHR 0x0A] @ path base @ '':'' @ [CHR 0x0A]) w
               else w)))
   \<and> (dir_stream ev (path base) = Inr names \<and> PATH_MAX - 1 \<le> length (path base) \<longrightarrow>
      fst (list_dir cfg ev base rest w) = base # rest
      \<and> trace (snd (list_dir cfg ev base rest w))
          = trace w @ [Stderr (''too long path'' @ [CHR 0x0A])]
      \<and> main_loop (Suc n) cfg ev (base # rest) w
          = main_loop n cfg ev rest
              (snd (list_dir cfg ev base rest
                (if depth base \<noteq> 0 then put ([CHR 0x0A] @ path base @ '':'' @ [CHR 0x0A]) w
                 else w))))
   \<and> perror p e w
       = w\<lparr>trace := trace w @ [Stderr ((if p = [] then [] else p @ '': '') @ e @ [CHR 0x0A])]\<rparr>
   \<and> (p \<noteq> [] \<longrightarrow>
        perror p e w = w\<lparr>trace := trace w @ [Stderr (p @ '': '' @ e @ [CHR 0x0A])]\<rparr>
        \<and> has_path_form p (p @ '': '' @ e @ [CHR 0x0A]))"
proof (intro conjI impI)
  assume a: "\<not> hidden (filter_cfg cfg) name \<and> length pfx + length name < PATH_MAX
      \<and> fs_lstat ev (pfx @ name) = Inl e"
  then have p: "child_path pfx name = pfx @ name"
    by (simp add: child_path_fits)
  with a show 1: "list_entry cfg ev d pfx name (que, subque, w)
        = (que, subque, perror (pfx @ name) e w)" for que subque w
    by (simp add: list_entry_def)
  show "read_loop cfg ev d pfx (before @ name # after) (que, subque, w)
        = read_loop cfg ev d pfx after
            (case read_loop cfg ev d pfx before (que, subque, w) of
               (q, k, v) \<Rightarrow> (q, k, perror (pfx @ name) e v))"
    by (cases "read_loop cfg ev d pfx before (que, subque, w)") (simp add: read_loop_append 1)
next
  let ?p = "dir_prefix (path base)"
  assume a: "dir_stream ev (path base) = Inr (before @ name # after)
      \<and> length (path base) < PATH_MAX - 1
      \<and> \<not> hidden (filter_cfg cfg) name
      \<and> length ?p + length name < PATH_MAX
      \<and> fs_lstat ev (?p @ name) = Inl e"
  then have p: "child_path ?p name = ?p @ name"
    by (simp add: child_path_fits)
  from a have "path base \<noteq> []"
    by (auto simp: dir_stream_def split: if_splits)
  then have ne: "?p \<noteq> []"
    by (simp add: dir_prefix_def)
  from a p ne have e: "entry_events cfg ev ?p name = [Stderr (?p @ name @ '': '' @ e @ [CHR 0x0A])]"
    by (simp add: entry_events_def list_entry_def)
  from a p have s: "subdir_of_entry cfg ev (depth base) ?p name = []"
    by (simp add: subdir_of_entry_def)
  from a show "listing cfg ev base
        = concat (map (entry_events cfg ev ?p) before)
          @ [Stderr (?p @ name @ '': '' @ e @ [CHR 0x0A])]
          @ concat (map (entry_events cfg ev ?p) after)"
    by (simp add: listing_names e)
  from a show "subdirs_of cfg ev base
        = concat (map (subdir_of_entry cfg ev (depth base) ?p) before)
          @ concat (map (subdir_of_entry cfg ev (depth base) ?p) after)"
    by (simp add: subdirs_of_names s)
  show "has_path_form (?p @ name) (?p @ name @ '': '' @ e @ [CHR 0x0A])"
    using has_path_form_perror [of "?p @ name" "e @ [CHR 0x0A]"] by simp
next
  assume a: "dir_stream ev (path base) = Inl e"
  then show 2: "list_dir cfg ev base rest w = (base # rest, perror (path base) e w)" for w
    by (simp add: list_dir_def opendir_def)
  show "main_loop (Suc n) cfg ev (base # rest) w
        = main_loop n cfg ev rest
            (perror (path base) e
              (if depth base \<noteq> 0 then put ([CHR 0x0A] @ path base @ '':'' @ [CHR 0x0A]) w
               else w))"
    by (simp add: 2)
next
  assume a: "dir_stream ev (path base) = Inr names \<and> PATH_MAX - 1 \<le> length (path base)"
  then show q: "fst (list_dir cfg ev base rest w) = base # rest" for w
    by (simp add: list_dir_def opendir_def)
  from a show "trace (snd (list_dir cfg ev base rest w))
      = trace w @ [Stderr (''too long path'' @ [CHR 0x0A])]"
    by (simp add: list_dir_trace listing_too_long)
  show "main_loop (Suc n) cfg ev (base # rest) w
      = main_loop n cfg ev rest
          (snd (list_dir cfg ev base rest
            (if depth base \<noteq> 0 then put ([CHR 0x0A] @ path base @ '':'' @ [CHR 0x0A]) w
             else w)))"
    using q by (simp add: split_def Let_def)
next
  show "perror p e w
       = w\<lparr>trace := trace w @ [Stderr ((if p = [] then [] else p @ '': '') @ e @ [CHR 0x0A])]\<rparr>"
    by (simp add: perror_def eput_def)
next
  assume "p \<noteq> []"
  then show "perror p e w = w\<lparr>trace := trace w @ [Stderr (p @ '': '' @ e @ [CHR 0x0A])]\<rparr>"
    by (simp add: perror_def eput_def)
next
  show "has_path_form p (p @ '': '' @ e @ [CHR 0x0A])"
    using has_path_form_perror [of p "e @ [CHR 0x0A]"] by simp
qed

theorem recoverable_errors_are_local_witness:
  "\<not> hidden (filter_cfg demo_cfg) ''gone''
   \<and> length ''r/'' + length ''gone'' < PATH_MAX
   \<and> fs_lstat demo_env (''r/'' @ ''gone'') = Inl ''No such file or directory''
   \<and> list_entry demo_cfg demo_env 0 ''r/'' ''gone'' ([\<lparr>path = ''r'', depth = 0\<rparr>], 0, w0)
       = ([\<lparr>path = ''r'', depth = 0\<rparr>], 0,
          \<lparr>trace = [Stderr (''r/gone: No such file or directory'' @ [CHR 0x0A])], dirs = []\<rparr>)
   \<and> read_loop demo_cfg demo_env 0 ''r/'' ([''f''] @ ''gone'' # [''f''])
         ([\<lparr>path = ''r'', depth = 0\<rparr>], 0, w0)
       = ([\<lparr>path = ''r'', depth = 0\<rparr>], 0,
          \<lparr>trace = [Stdout ''f'', Stdout [CHR 0x0A],
             Stderr (''r/gone: No such file or directory'' @ [CHR 0x0A]),
             Stdout ''f'', Stdout [CHR 0x0A]], dirs = []\<rparr>)
   \<and> dir_stream demo_env (path \<lparr>path = ''r'', depth = 0\<rparr>) = Inr ([''a''] @ ''gone'' # [''l'', ''locked'', ''f''])
   \<and> length (path \<lparr>path = ''r'', depth = 0\<rparr>) < PATH_MAX - 1
   \<and> dir_prefix (path \<lparr>path = ''r'', depth = 0\<rparr>) = ''r/''
   \<and> listing demo_cfg demo_env \<lparr>path = ''r'', depth = 0\<rparr>
       = [Stdout ''a'', Stdout [CHR 0x0A],
          Stderr (''r/gone: No such file or directory'' @ [CHR 0x0A]),
          Stdout ''l'', Stdout [CHR 0x0A], Stdout ''locked'', Stdout [CHR 0x0A],
          Stdout ''f'', Stdout [CHR 0x0A]]
   \<and> subdirs_of demo_cfg demo_env \<lparr>path = ''r'', depth = 0\<rparr>
       = [\<lparr>path = ''r/a'', depth = 1\<rparr>, \<lparr>path = ''r/locked'', depth = 1\<rparr>]
   \<and> has_path_form ''r/gone'' (''r/gone: No such file or directory'' @ [CHR 0x0A])
   \<and> dir_stream demo_env (path \<lparr>path = ''r/locked'', depth = 1\<rparr>) = Inl ''Permission denied''
   \<and> list_dir demo_cfg demo_env \<lparr>path = ''r/locked'', depth = 1\<rparr> [\<lparr>path = ''r/a'', depth = 1\<rparr>] w0
       = ([\<lparr>path = ''r/locked'', depth = 1\<rparr>, \<lparr>path = ''r/a'', depth = 1\<rparr>],
          \<lparr>trace = [Stderr (''r/locked: Permission denied'' @ [CHR 0x0A])], dirs = []\<rparr>)
   \<and> main_loop (Suc (Suc 0)) demo_cfg demo_env
         [\<lparr>path = ''r/locked'', depth = 1\<rparr>, \<lparr>path = ''r/a'', depth = 1\<rparr>] w0
       = Some \<lparr>trace = [Stdout ([CHR 0x0A] @ ''r/locked:'' @ [CHR 0x0A]),
                       Stderr (''r/locked: Permission denied'' @ [CHR 0x0A]),
                       Stdout ([CHR 0x0A] @ ''r/a:'' @ [CHR 0x0A])], dirs = []\<rparr>
   \<and> dir_stream open_env (path \<lparr>path = long_root, depth = 1\<rparr>) = Inr []
   \<and> PATH_MAX - 1 \<le> length (path \<lparr>path = long_root, depth = 1\<rparr>)
   \<and> trace (snd (list_dir demo_cfg open_env \<lparr>path = long_root, depth = 1\<rparr>
         [\<lparr>path = ''r/a'', depth = 1\<rparr>] w0))
       = [Stderr (''too long path'' @ [CHR 0x0A])]
   \<and> perror [] ''No such file or directory'' w0
       = \<lparr>trace = [Stderr (''No such file or directory'' @ [CHR 0x0A])], dirs = []\<rparr>
   \<and> ''r/locked'' \<noteq> []
   \<and> perror ''r/locked'' ''Permission denied'' w0
       = \<lparr>trace = [Stderr (''r/locked: Permission denied'' @ [CHR 0x0A])], dirs = []\<rparr>
   \<and> has_path_form ''r/locked'' (''r/locked: Permission denied'' @ [CHR 0x0A])"
proof -
  let ?r = "\<lparr>path = ''r'', depth = 0\<rparr>"
  have h1: "\<not> hidden (filter_cfg demo_cfg) ''gone''
     \<and> length ''r/'' + length ''gone'' < PATH_MAX
     \<and> fs_lstat demo_env (''r/'' @ ''gone'') = Inl ''No such file or directory''"
    by (simp add: ls_eval demo_eval)
  have dp: "dir_prefix (path ?r) = ''r/''"
    by (simp add: dir_prefix_def)
  have dq: "dir_prefix ''r'' = ''r/''"
    by (simp add: dir_prefix_def)
  have h2: "dir_stream demo_env (path ?r) = Inr ([''a''] @ ''gone'' # [''l'', ''locked'', ''f''])
      \<and> length (path ?r) < PATH_MAX - 1
      \<and> \<not> hidden (filter_cfg demo_cfg) ''gone''
      \<and> length (dir_prefix (path ?r)) + length ''gone'' < PATH_MAX
      \<and> fs_lstat demo_env (dir_prefix (path ?r) @ ''gone'') = Inl ''No such file or directory''"
    by (simp add: ls_eval demo_eval)
  have h3: "dir_stream demo_env (path \<lparr>path = ''r/locked'', depth = 1\<rparr>) = Inl ''Permission denied''"
    by (simp add: ls_eval demo_eval)
  have h4: "dir_stream open_env (path \<lparr>path = long_root, depth = 1\<rparr>) = Inr []
      \<and> PATH_MAX - 1 \<le> length (path \<lparr>path = long_root, depth = 1\<rparr>)"
    by (simp add: dir_stream_open_env long_root_facts PATH_MAX_def)
  have h5: "''r/locked'' \<noteq> []"
    by simp
  note c1 = recoverable_errors_are_local [where cfg = demo_cfg and name = "''gone''"
      and ev = demo_env and pfx = "''r/''" and e = "''No such file or directory''" and d = 0
      and que = "[\<lparr>path = ''r'', depth = 0\<rparr>]" and subque = 0 and w = w0
      and before = "[''f'']" and after = "[''f'']",
      THEN conjunct1, rule_format, OF h1]
  note c2 = recoverable_errors_are_local [where cfg = demo_cfg and name = "''gone''"
      and ev = demo_env and e = "''No such file or directory''" and base = ?r
      and before = "[''a'']" and after = "[''l'', ''locked'', ''f'']",
      THEN conjunct2, THEN conjunct1, rule_format, OF h2]
  note c3 = recoverable_errors_are_local [where cfg = demo_cfg and ev = demo_env
      and e = "''Permission denied''" and base = "\<lparr>path = ''r/locked'', depth = 1\<rparr>"
      and rest = "[\<lparr>path = ''r/a'', depth = 1\<rparr>]" and n = "Suc 0" and w = w0,
      THEN conjunct2, THEN conjunct2, THEN conjunct1, rule_format, OF h3]
  note c4 = recoverable_errors_are_local [where cfg = demo_cfg and ev = open_env
      and base = "\<lparr>path = long_root, depth = 1\<rparr>" and names = "[]"
      and rest = "[\<lparr>path = ''r/a'', depth = 1\<rparr>]" and w = w0,
      THEN conjunct2, THEN conjunct2, THEN conjunct2, THEN conjunct1, rule_format, OF h4]
  note c5 = recoverable_errors_are_local [where p = "[]"
      and e = "''No such file or directory''" and w = w0,
      THEN conjunct2, THEN conjunct2, THEN conjunct2, THEN conjunct2, THEN conjunct1]
  note c6 = recoverable_errors_are_local [where p = "''r/locked''"
      and e = "''Permission denied''" and w = w0,
      THEN conjunct2, THEN conjunct2, THEN conjunct2, THEN conjunct2, THEN conjunct2,
      rule_format, OF h5]
  have f: "list_entry demo_cfg demo_env 0 ''r/'' ''f'' (q, k, w)
      = (q, k, w\<lparr>trace := trace w @ [Stdout ''f'', Stdout [CHR 0x0A]]\<rparr>)" for q k w
    by (simp add: ls_eval demo_eval)
  have a: "main_loop (Suc 0) demo_cfg demo_env [\<lparr>path = ''r/a'', depth = 1\<rparr>] w
      = Some (w\<lparr>trace := trace w @ [Stdout ([CHR 0x0A] @ ''r/a:'' @ [CHR 0x0A])]\<rparr>)" for w
    by (simp add: ls_eval demo_eval)
  have pe: "perror p e w = w\<lparr>trace := trace w @ [Stderr (p @ '': '' @ e @ [CHR 0x0A])]\<rparr>"
    if "p \<noteq> []" for p e w
    using that by (simp add: perror_def eput_def)
  have ee: "entry_events demo_cfg demo_env ''r/'' ''a'' = [Stdout ''a'', Stdout [CHR 0x0A]]"
    "entry_events demo_cfg demo_env ''r/'' ''l'' = [Stdout ''l'', Stdout [CHR 0x0A]]"
    "entry_events demo_cfg demo_env ''r/'' ''locked'' = [Stdout ''locked'', Stdout [CHR 0x0A]]"
    "entry_events demo_cfg demo_env ''r/'' ''f'' = [Stdout ''f'', Stdout [CHR 0x0A]]"
    by (simp_all add: entry_events_def ls_eval demo_eval)
  have se: "subdir_of_entry demo_cfg demo_env 0 ''r/'' ''a'' = [\<lparr>path = ''r/a'', depth = 1\<rparr>]"
    "subdir_of_entry demo_cfg demo_env 0 ''r/'' ''l'' = []"
    "subdir_of_entry demo_cfg demo_env 0 ''r/'' ''locked'' = [\<lparr>path = ''r/locked'', depth = 1\<rparr>]"
    "subdir_of_entry demo_cfg demo_env 0 ''r/'' ''f'' = []"
    by (simp_all add: subdir_of_entry_def ls_eval demo_eval)
  have w1: "list_entry demo_cfg demo_env 0 ''r/'' ''gone'' ([\<lparr>path = ''r'', depth = 0\<rparr>], 0, w0)
       = ([\<lparr>path = ''r'', depth = 0\<rparr>], 0,
          \<lparr>trace = [Stderr (''r/gone: No such file or directory'' @ [CHR 0x0A])], dirs = []\<rparr>)"
    using c1 by (simp add: pe w0_def)
  have w2: "read_loop demo_cfg demo_env 0 ''r/'' ([''f''] @ ''gone'' # [''f''])
         ([\<lparr>path = ''r'', depth = 0\<rparr>], 0, w0)
       = ([\<lparr>path = ''r'', depth = 0\<rparr>], 0,
          \<lparr>trace = [Stdout ''f'', Stdout [CHR 0x0A],
             Stderr (''r/gone: No such file or directory'' @ [CHR 0x0A]),
             Stdout ''f'', Stdout [CHR 0x0A]], dirs = []\<rparr>)"
    using c1 [THEN conjunct2] by (simp add: f pe w0_def)
  have w3: "listing demo_cfg demo_env ?r
       = [Stdout ''a'', Stdout [CHR 0x0A],
          Stderr (''r/gone: No such file or directory'' @ [CHR 0x0A]),
          Stdout ''l'', Stdout [CHR 0x0A], Stdout ''locked'', Stdout [CHR 0x0A],
          Stdout ''f'', Stdout [CHR 0x0A]]"
    using c2 [THEN conjunct1] by (simp add: dq ee)
  have w4: "subdirs_of demo_cfg demo_env ?r
       = [\<lparr>path = ''r/a'', depth = 1\<rparr>, \<lparr>path = ''r/locked'', depth = 1\<rparr>]"
    using c2 [THEN conjunct2, THEN conjunct1] by (simp add: dq se)
  have w5: "has_path_form ''r/gone'' (''r/gone: No such file or directory'' @ [CHR 0x0A])"
    using c2 [THEN conjunct2, THEN conjunct2] by (simp add: dq)
  have w6: "list_dir demo_cfg demo_env \<lparr>path = ''r/locked'', depth = 1\<rparr> [\<lparr>path = ''r/a'', depth = 1\<rparr>] w0
       = ([\<lparr>path = ''r/locked'', depth = 1\<rparr>, \<lparr>path = ''r/a'', depth = 1\<rparr>],
          \<lparr>trace = [Stderr (''r/locked: Permission denied'' @ [CHR 0x0A])], dirs = []\<rparr>)"
    using c3 [THEN conjunct1] by (simp add: pe w0_def)
  have w7: "main_loop (Suc (Suc 0)) demo_cfg demo_env
         [\<lparr>path = ''r/locked'', depth = 1\<rparr>, \<lparr>path = ''r/a'', depth = 1\<rparr>] w0
       = Some \<lparr>trace = [Stdout ([CHR 0x0A] @ ''r/locked:'' @ [CHR 0x0A]),
                       Stderr (''r/locked: Permission denied'' @ [CHR 0x0A]),
                       Stdout ([CHR 0x0A] @ ''r/a:'' @ [CHR 0x0A])], dirs = []\<rparr>"
    using c3 [THEN conjunct2] by (simp add: a pe w0_def put_def del: main_loop.simps(3))
  have w8: "trace (snd (list_dir demo_cfg open_env \<lparr>path = long_root, depth = 1\<rparr>
         [\<lparr>path = ''r/a'', depth = 1\<rparr>] w0))
       = [Stderr (''too long path'' @ [CHR 0x0A])]"
    using c4 by simp
  have w9: "perror [] ''No such file or directory'' w0
       = \<lparr>trace = [Stderr (''No such file or directory'' @ [CHR 0x0A])], dirs = []\<rparr>"
    using c5 by (simp add: w0_def)
  have w10: "perror ''r/locked'' ''Permission denied'' w0
       = \<lparr>trace = [Stderr (''r/locked: Permission denied'' @ [CHR 0x0A])], dirs = []\<rparr>"
    using c6 [THEN conjunct1] by (simp add: w0_def)
  have w11: "has_path_form ''r/locked'' (''r/locked: Permission denied'' @ [CHR 0x0A])"
    using c6 [THEN conjunct2] by simp
  from h1 h2 dp h3 h4 h5 w1 w2 w3 w4 w5 w6 w7 w8 w9 w10 w11 show ?thesis by blast
qed

text \<open>
  C8, as the claim states it: the diagnostic for a base path that is too long would have
  the form \<^verbatim>\<open><path>: <reason>\<close>. For an open directory whose path has \<^verbatim>\<open>PATH_MAX - 1\<close>
  characters the diagnostic is the line \<^verbatim>\<open>too long path\<close>, which does not start with the
  path.
\<close>

theorem too_long_path_counterexample:
  "dir_stream open_env long_root = Inr []
   \<and> PATH_MAX - 1 \<le> length long_root
   \<and> trace (snd (list_dir demo_cfg open_env \<lparr>path = long_root, depth = 0\<rparr> [] w0))
       = [Stderr (''too long path'' @ [CHR 0x0A])]
   \<and> \<not> has_path_form long_root (''too long path'' @ [CHR 0x0A])"
proof -
  have 1: "dir_stream open_env long_root = Inr []"
    by (simp add: dir_stream_open_env long_root_facts)
  have 2: "PATH_MAX - 1 \<le> length long_root"
    by (simp add: long_root_facts PATH_MAX_def)
  have 3: "trace (snd (list_dir demo_cfg open_env \<lparr>path = long_root, depth = 0\<rparr> [] w0))
       = [Stderr (''too long path'' @ [CHR 0x0A])]"
    using 1 2 by (simp add: list_dir_trace listing_too_long)
  have "length (take (length long_root + 2) (''too long path'' @ [CHR 0x0A]))
      \<noteq> length (long_root @ '': '')"
    by (simp add: long_root_facts)
  then have 4: "\<not> has_path_form long_root (''too long path'' @ [CHR 0x0A])"
    unfolding has_path_form_def by metis
  from 1 2 3 4 show ?thesis by blast
qed

text \<open>
  C8, amended. For every queued directory that \<^verbatim>\<open>opendir\<close> opens and whose base path has
  at least \<^verbatim>\<open>PATH_MAX - 1\<close> characters, \<^verbatim>\<open>list_dir\<close> writes the fixed line
  \<^verbatim>\<open>too long path\<close> to standard error and nothing else, lists no entry, adds nothing to
  the queue, and the driver goes on with the directories behind it.
\<close>

theorem too_long_path_is_local:
  "dir_stream ev (path base) = Inr names \<and> PATH_MAX - 1 \<le> length (path base) \<longrightarrow>
     fst (list_dir cfg ev base rest w) = base # rest
     \<and> trace (snd (list_dir cfg ev base rest w))
         = trace w @ [Stderr (''too long path'' @ [CHR 0x0A])]
     \<and> main_loop (Suc n) cfg ev (base # rest) w
         = main_loop n cfg ev rest
             (snd (list_dir cfg ev base rest
               (if depth base \<noteq> 0 then put ([CHR 0x0A] @ path base @ '':'' @ [CHR 0x0A]) w
                else w)))"
proof (intro impI, elim conjE)
  assume a: "dir_stream ev (path base) = Inr names" "PATH_MAX - 1 \<le> length (path base)"
  then have q: "fst (list_dir cfg ev base rest w) = base # rest" for w
    by (simp add: list_dir_def opendir_def)
  from a have "trace (snd (list_dir cfg ev base rest w))
         = trace w @ [Stderr (''too long path'' @ [CHR 0x0A])]"
    by (simp add: list_dir_trace listing_too_long)
  moreover have "main_loop (Suc n) cfg ev (base # rest) w
         = main_loop n cfg ev rest
             (snd (list_dir cfg ev base rest
               (if depth base \<noteq> 0 then put ([CHR 0x0A] @ path base @ '':'' @ [CHR 0x0A]) w
                else w)))"
    using q by (simp add: split_def Let_def)
  ultimately show "fst (list_dir cfg ev base rest w) = base # rest
     \<and> trace (snd (list_dir cfg ev base rest w))
         = trace w @ [Stderr (''too long path'' @ [CHR 0x0A])]
     \<and> main_loop (Suc n) cfg ev (base # rest) w
         = main_loop n cfg ev rest
             (snd (list_dir cfg ev base rest
               (if depth base \<noteq> 0 then put ([CHR 0x0A] @ path base @ '':'' @ [CHR 0x0A]) w
                else w)))"
    using q by simp
qed

theorem too_long_path_is_local_witness:
  "dir_stream open_env (path \<lparr>path = long_root, depth = 1\<rparr>) = Inr []
   \<and> PATH_MAX - 1 \<le> length (path \<lparr>path = long_root, depth = 1\<rparr>)
   \<and> fst (list_dir demo_cfg open_env \<lparr>path = long_root, depth = 1\<rparr> [\<lparr>path = ''r/a'', depth = 1\<rparr>] w0)
       = [\<lparr>path = long_root, depth = 1\<rparr>, \<lparr>path = ''r/a'', depth = 1\<rparr>]
   \<and> trace (snd (list_dir demo_cfg open_env \<lparr>path = long_root, depth = 1\<rparr>
         [\<lparr>path = ''r/a'', depth = 1\<rparr>] w0))
       = [Stderr (''too long path'' @ [CHR 0x0A])]
   \<and> map_option trace (main_loop (Suc (Suc 0)) demo_cfg open_env
         [\<lparr>path = long_root, depth = 1\<rparr>, \<lparr>path = ''r/a'', depth = 1\<rparr>] w0)
       = Some [Stdout ([CHR 0x0A] @ long_root @ '':'' @ [CHR 0x0A]),
               Stderr (''too long path'' @ [CHR 0x0A]),
               Stdout ([CHR 0x0A] @ ''r/a:'' @ [CHR 0x0A])]"
proof -
  have h: "dir_stream open_env (path \<lparr>path = long_root, depth = 1\<rparr>) = Inr []
     \<and> PATH_MAX - 1 \<le> length (path \<lparr>path = long_root, depth = 1\<rparr>)"
    by (simp add: dir_stream_open_env long_root_facts PATH_MAX_def)
  note c = too_long_path_is_local [of open_env "\<lparr>path = long_root, depth = 1\<rparr>" "[]" demo_cfg
      "[\<lparr>path = ''r/a'', depth = 1\<rparr>]" _ "Suc 0", rule_format, OF h]
  have a: "main_loop (Suc 0) demo_cfg open_env [\<lparr>path = ''r/a'', depth = 1\<rparr>] w
      = Some (w\<lparr>trace := trace w @ [Stdout ([CHR 0x0A] @ ''r/a:'' @ [CHR 0x0A])]\<rparr>)" for w
    by (simp add: ls_eval open_env_def demo_eval)
  have w1: "fst (list_dir demo_cfg open_env \<lparr>path = long_root, depth = 1\<rparr> [\<lparr>path = ''r/a'', depth = 1\<rparr>] w0)
       = [\<lparr>path = long_root, depth = 1\<rparr>, \<lparr>path = ''r/a'', depth = 1\<rparr>]"
    using c [of w0] by simp
  have w2: "trace (snd (list_dir demo_cfg open_env \<lparr>path = long_root, depth = 1\<rparr>
         [\<lparr>path = ''r/a'', depth = 1\<rparr>] w0))
       = [Stderr (''too long path'' @ [CHR 0x0A])]"
    using c [of w0] by simp
  have w3: "map_option trace (main_loop (Suc (Suc 0)) demo_cfg open_env
         [\<lparr>path = long_root, depth = 1\<rparr>, \<lparr>path = ''r/a'', depth = 1\<rparr>] w0)
       = Some [Stdout ([CHR 0x0A] @ long_root @ '':'' @ [CHR 0x0A]),
               Stderr (''too long path'' @ [CHR 0x0A]),
               Stdout ([CHR 0x0A] @ ''r/a:'' @ [CHR 0x0A])]"
    using c [of w0, THEN conjunct2, THEN conjunct2]
      c [of "put ([CHR 0x0A] @ long_root @ '':'' @ [CHR 0x0A]) w0", THEN conjunct2, THEN conjunct1]
    by (simp add: a del: main_loop.simps(3))
  from h w1 w2 w3 show ?thesis by blast
qed

text \<open>
  C9. The decision to recurse reads the mode that \<^verbatim>\<open>lstat\<close> reports, which does not
  follow links. An entry that \<^verbatim>\<open>lstat\<close> reports as a symbolic link leaves the queue and
  the position of \<^verbatim>\<open>subque\<close> as they were, whatever the configuration and whatever the
  link points to. Every node that listing a directory adds to the queue has a path on
  which \<^verbatim>\<open>lstat\<close> reports a directory and no symbolic link, and these nodes are all that
  \<^verbatim>\<open>list_dir\<close> adds.
\<close>

theorem symlinks_never_enqueued:
  "(fs_lstat ev (child_path pfx name) = Inr st \<and> S_ISLNK (st_mode st) \<longrightarrow>
      fst (list_entry cfg ev d pfx name (que, subque, w)) = que
      \<and> fst (snd (list_entry cfg ev d pfx name (que, subque, w))) = subque)
   \<and> (\<forall>c \<in> set (subdirs_of cfg ev base).
        \<exists>st. fs_lstat ev (path c) = Inr st \<and> S_ISDIR (st_mode st) \<and> \<not> S_ISLNK (st_mode st))
   \<and> fst (list_dir cfg ev base rest w) = base # subdirs_of cfg ev base @ rest"
proof (intro conjI impI ballI)
  assume a: "fs_lstat ev (child_path pfx name) = Inr st \<and> S_ISLNK (st_mode st)"
  then show "fst (list_entry cfg ev d pfx name (que, subque, w)) = que"
    by (simp add: list_entry_def lnk_not_dir Let_def split: prod.split)
  from a show "fst (snd (list_entry cfg ev d pfx name (que, subque, w))) = subque"
    by (simp add: list_entry_def lnk_not_dir Let_def split: prod.split)
next
  fix c assume "c \<in> set (subdirs_of cfg ev base)"
  then show "\<exists>st. fs_lstat ev (path c) = Inr st \<and> S_ISDIR (st_mode st) \<and> \<not> S_ISLNK (st_mode st)"
    by (rule subdirs_of_lstat)
next
  show "fst (list_dir cfg ev base rest w) = base # subdirs_of cfg ev base @ rest"
    by (rule list_dir_que)
qed

theorem symlinks_never_enqueued_witness:
  "fs_lstat demo_env (child_path ''r/'' ''l'') = Inr (mk_stat (S_IFLNK OR 511))
   \<and> S_ISLNK (st_mode (mk_stat (S_IFLNK OR 511)))
   \<and> fs_stat demo_env (child_path ''r/'' ''l'') = Inr (mk_stat (S_IFDIR OR 493))
   \<and> S_ISDIR (st_mode (mk_stat (S_IFDIR OR 493)))
   \<and> fst (list_entry demo_cfg demo_env 0 ''r/'' ''l'' ([\<lparr>path = ''r'', depth = 0\<rparr>], 0, w0))
       = [\<lparr>path = ''r'', depth = 0\<rparr>]
   \<and> fst (snd (list_entry demo_cfg demo_env 0 ''r/'' ''l'' ([\<lparr>path = ''r'', depth = 0\<rparr>], 0, w0)))
       = 0
   \<and> subdirs_of demo_cfg demo_env \<lparr>path = ''r'', depth = 0\<rparr>
       = [\<lparr>path = ''r/a'', depth = 1\<rparr>, \<lparr>path = ''r/locked'', depth = 1\<rparr>]
   \<and> fs_lstat demo_env ''r/a'' = Inr (mk_stat (S_IFDIR OR 493))
   \<and> fs_lstat demo_env ''r/locked'' = Inr (mk_stat (S_IFDIR OR 493))
   \<and> \<not> S_ISLNK (st_mode (mk_stat (S_IFDIR OR 493)))
   \<and> fst (list_dir demo_cfg demo_env \<lparr>path = ''r'', depth = 0\<rparr> [] w0)
       = [\<lparr>path = ''r'', depth = 0\<rparr>, \<lparr>path = ''r/a'', depth = 1\<rparr>,
          \<lparr>path = ''r/locked'', depth = 1\<rparr>]"
proof -
  have h1: "fs_lstat demo_env (child_path ''r/'' ''l'') = Inr (mk_stat (S_IFLNK OR 511))"
    by (simp add: demo_env_def child_path_def PATH_MAX_def)
  have h2: "S_ISLNK (st_mode (mk_stat (S_IFLNK OR 511)))"
    by (simp add: mk_stat_def type_tests)
  have h3: "fs_stat demo_env (child_path ''r/'' ''l'') = Inr (mk_stat (S_IFDIR OR 493))"
    by (simp add: demo_env_def child_path_def PATH_MAX_def)
  have h4: "S_ISDIR (st_mode (mk_stat (S_IFDIR OR 493)))"
    by (simp add: mk_stat_def type_tests)
  have s: "subdirs_of demo_cfg demo_env \<lparr>path = ''r'', depth = 0\<rparr>
       = [\<lparr>path = ''r/a'', depth = 1\<rparr>, \<lparr>path = ''r/locked'', depth = 1\<rparr>]"
    by (simp add: subdirs_of_def subdir_of_entry_def ls_eval demo_eval)
  note c = symlinks_never_enqueued [of demo_env "''r/''" "''l''" "mk_stat (S_IFLNK OR 511)"
      demo_cfg 0 "[\<lparr>path = ''r'', depth = 0\<rparr>]" 0 w0 "\<lparr>path = ''r'', depth = 0\<rparr>" "[]"]
  from c [THEN conjunct1] h1 h2
  have w1: "fst (list_entry demo_cfg demo_env 0 ''r/'' ''l'' ([\<lparr>path = ''r'', depth = 0\<rparr>], 0, w0))
       = [\<lparr>path = ''r'', depth = 0\<rparr>]"
    and w2: "fst (snd (list_entry demo_cfg demo_env 0 ''r/'' ''l''
       ([\<lparr>path = ''r'', depth = 0\<rparr>], 0, w0))) = 0"
    by blast+
  from c [THEN conjunct2, THEN conjunct2] s
  have w3: "fst (list_dir demo_cfg demo_env \<lparr>path = ''r'', depth = 0\<rparr> [] w0)
       = [\<lparr>path = ''r'', depth = 0\<rparr>, \<lparr>path = ''r/a'', depth = 1\<rparr>,
          \<lparr>path = ''r/locked'', depth = 1\<rparr>]"
    by simp
  have l: "fs_lstat demo_env ''r/a'' = Inr (mk_stat (S_IFDIR OR 493))"
    "fs_lstat demo_env ''r/locked'' = Inr (mk_stat (S_IFDIR OR 493))"
    "\<not> S_ISLNK (st_mode (mk_stat (S_IFDIR OR 493)))"
    using c [THEN conjunct2, THEN conjunct1] s
    by (simp_all add: demo_env_def mk_stat_def type_tests)
  from h1 h2 h3 h4 w1 w2 s l w3 show ?thesis by blast
qed

text \<open>
  C10. For an entry that the filter lets through and on which \<^verbatim>\<open>lstat\<close> succeeds, the
  loop body writes the columns, the name and the indicator, then the suffix, then the
  newline. The suffix, \<^verbatim>\<open> -> \<close> and the target, is written if and only if the long format
  is on, the entry is a symbolic link and \<^verbatim>\<open>readlink\<close> returned at least one byte;
  otherwise nothing stands between the name part and the newline. \<^verbatim>\<open>link_ok\<close>, which the
  name and the target are printed with, is false exactly when the entry is a symbolic
  link on which \<^verbatim>\<open>stat\<close> fails, whatever \<^verbatim>\<open>readlink\<close> returned.
\<close>

theorem link_suffix:
  "\<not> hidden (filter_cfg cfg) name \<and> fs_lstat ev (child_path pfx name) = Inr st \<longrightarrow>
     snd (snd (list_entry cfg ev d pfx name (que, subque, w)))
       = put [CHR 0x0A]
           (if long_format cfg \<and> S_ISLNK (st_mode st) \<and> link_readable ev (child_path pfx name)
            then (if color cfg
                  then print_name_with_color (link_target ev (child_path pfx name))
                         (target_mode ev (child_path pfx name))
                         (link_resolves ev (child_path pfx name))
                  else put (link_target ev (child_path pfx name)))
                   (put '' -> ''
                     (entry_head cfg ev name st
                       (S_ISLNK (st_mode st) \<longrightarrow> link_resolves ev (child_path pfx name)) w))
            else entry_head cfg ev name st
                   (S_ISLNK (st_mode st) \<longrightarrow> link_resolves ev (child_path pfx name)) w)"
proof (intro impI, elim conjE)
  assume a: "\<not> hidden (filter_cfg cfg) name" "fs_lstat ev (child_path pfx name) = Inr st"
  show "snd (snd (list_entry cfg ev d pfx name (que, subque, w)))
       = put [CHR 0x0A]
           (if long_format cfg \<and> S_ISLNK (st_mode st) \<and> link_readable ev (child_path pfx name)
            then (if color cfg
                  then print_name_with_color (link_target ev (child_path pfx name))
                         (target_mode ev (child_path pfx name))
                         (link_resolves ev (child_path pfx name))
                  else put (link_target ev (child_path pfx name)))
                   (put '' -> ''
                     (entry_head cfg ev name st
                       (S_ISLNK (st_mode st) \<longrightarrow> link_resolves ev (child_path pfx name)) w))
            else entry_head cfg ev name st
                   (S_ISLNK (st_mode st) \<longrightarrow> link_resolves ev (child_path pfx name)) w)"
  proof (cases "S_ISLNK (st_mode st)")
    case False
    with a show ?thesis
      by (simp add: list_entry_def read_link_eq print_link_def Let_def split: prod.split)
  next
    case True
    with a show ?thesis
      by (cases "fs_readlink ev (child_path pfx name)"; cases "fs_stat ev (child_path pfx name)")
         (simp_all add: list_entry_def read_link_def print_link_def Let_def link_readable_def
            link_target_def link_resolves_def target_mode_def PATH_MAX_def split: prod.split)
  qed
qed

theorem link_suffix_witness:
  "\<not> hidden (filter_cfg long_cfg) ''l''
   \<and> fs_lstat demo_env (child_path ''r/'' ''l'') = Inr (mk_stat (S_IFLNK OR 511))
   \<and> snd (snd (list_entry long_cfg demo_env 0 ''r/'' ''l'' ([\<lparr>path = ''r'', depth = 0\<rparr>], 0, w0)))
       = put [CHR 0x0A] (put ''a'' (put '' -> ''
           (entry_head long_cfg demo_env ''l'' (mk_stat (S_IFLNK OR 511)) True w0)))
   \<and> fs_lstat unreadable_env (child_path ''r/'' ''l'') = Inr (mk_stat (S_IFLNK OR 511))
   \<and> snd (snd (list_entry long_cfg unreadable_env 0 ''r/'' ''l''
         ([\<lparr>path = ''r'', depth = 0\<rparr>], 0, w0)))
       = put [CHR 0x0A] (entry_head long_cfg unreadable_env ''l'' (mk_stat (S_IFLNK OR 511)) False w0)
   \<and> fs_lstat demo_env (child_path ''r/'' ''f'') = Inr (mk_stat (S_IFREG OR 420))
   \<and> snd (snd (list_entry long_cfg demo_env 0 ''r/'' ''f'' ([\<lparr>path = ''r'', depth = 0\<rparr>], 0, w0)))
       = put [CHR 0x0A] (entry_head long_cfg demo_env ''f'' (mk_stat (S_IFREG OR 420)) True w0)"
proof -
  have h0: "\<not> hidden (filter_cfg long_cfg) ''l''" "\<not> hidden (filter_cfg long_cfg) ''f''"
    by (simp_all add: long_cfg_def demo_cfg_def hidden_def cchar_def)
  have h1: "fs_lstat demo_env (child_path ''r/'' ''l'') = Inr (mk_stat (S_IFLNK OR 511))"
    by (simp add: demo_env_def child_path_def PATH_MAX_def)
  have h2: "fs_lstat unreadable_env (child_path ''r/'' ''l'') = Inr (mk_stat (S_IFLNK OR 511))"
    by (simp add: unreadable_env_def demo_env_def child_path_def PATH_MAX_def)
  have h3: "fs_lstat demo_env (child_path ''r/'' ''f'') = Inr (mk_stat (S_IFREG OR 420))"
    by (simp add: demo_env_def child_path_def PATH_MAX_def)
  have e: "long_format long_cfg" "\<not> color long_cfg"
    "S_ISLNK (st_mode (mk_stat (S_IFLNK OR 511)))" "\<not> S_ISLNK (st_mode (mk_stat (S_IFREG OR 420)))"
    "link_readable demo_env (child_path ''r/'' ''l'')"
    "link_target demo_env (child_path ''r/'' ''l'') = ''a''"
    "link_resolves demo_env (child_path ''r/'' ''l'')"
    "\<not> link_readable unreadable_env (child_path ''r/'' ''l'')"
    "\<not> link_resolves unreadable_env (child_path ''r/'' ''l'')"
    by (simp_all add: long_cfg_def demo_cfg_def mk_stat_def type_tests link_readable_def
        link_target_def link_resolves_def unreadable_env_def demo_env_def child_path_def PATH_MAX_def)
  have w1: "snd (snd (list_entry long_cfg demo_env 0 ''r/'' ''l''
         ([\<lparr>path = ''r'', depth = 0\<rparr>], 0, w0)))
       = put [CHR 0x0A] (put ''a'' (put '' -> ''
           (entry_head long_cfg demo_env ''l'' (mk_stat (S_IFLNK OR 511)) True w0)))"
    using link_suffix [of long_cfg "''l''" demo_env "''r/''" "mk_stat (S_IFLNK OR 511)" 0
        "[\<lparr>path = ''r'', depth = 0\<rparr>]" 0 w0] h0 h1
    by (simp add: e)
  have w2: "snd (snd (list_entry long_cfg unreadable_env 0 ''r/'' ''l''
         ([\<lparr>path = ''r'', depth = 0\<rparr>], 0, w0)))
       = put [CHR 0x0A] (entry_head long_cfg unreadable_env ''l'' (mk_stat (S_IFLNK OR 511)) False w0)"
    using link_suffix [of long_cfg "''l''" unreadable_env "''r/''" "mk_stat (S_IFLNK OR 511)" 0
        "[\<lparr>path = ''r'', depth = 0\<rparr>]" 0 w0] h0 h2
    by (simp add: e)
  have w3: "snd (snd (list_entry long_cfg demo_env 0 ''r/'' ''f''
         ([\<lparr>path = ''r'', depth = 0\<rparr>], 0, w0)))
       = put [CHR 0x0A] (entry_head long_cfg demo_env ''f'' (mk_stat (S_IFREG OR 420)) True w0)"
    using link_suffix [of long_cfg "''f''" demo_env "''r/''" "mk_stat (S_IFREG OR 420)" 0
        "[\<lparr>path = ''r'', depth = 0\<rparr>]" 0 w0] h0 h3
    by (simp add: e)
  from h0 h1 h2 h3 w1 w2 w3 show ?thesis by blast
qed

section \<open>Further properties\<close>

text \<open>
  X1. The run ends. When no directory holds an entry with an empty name, the driver's loop
  empties any queue after finitely many rounds, from any state: a node's path is longer
  than its parent's, and a directory whose path has \<^verbatim>\<open>PATH_MAX - 1\<close> characters or
  more adds no node.
\<close>

theorem main_loop_terminates:
  "named_entries ev \<longrightarrow> (\<exists>n w'. main_loop n cfg ev q w = Some w')"
  using main_loop_returns by blast

lemma named_entries_demo_env: "named_entries demo_env"
  by (auto simp: named_entries_def demo_env_def split: if_splits)

theorem main_loop_terminates_witness:
  "named_entries demo_env
   \<and> (\<exists>n w'. main_loop n demo_cfg demo_env [\<lparr>path = ''r'', depth = 0\<rparr>] w0 = Some w')"
  using main_loop_terminates [of demo_env demo_cfg "[\<lparr>path = ''r'', depth = 0\<rparr>]" w0]
    named_entries_demo_env by blast

text \<open>
  X2. \<^verbatim>\<open>list_dir\<close> leaves the open directory streams as it found them when the directory
  cannot be opened and when its path has fewer than \<^verbatim>\<open>PATH_MAX - 1\<close> characters: the
  stream that it opens is closed at the end of the listing.
\<close>

theorem list_dir_releases_stream:
  "(dir_stream ev (path base) = Inl e \<or> length (path base) < PATH_MAX - 1)
     \<longrightarrow> dirs (snd (list_dir cfg ev base rest w)) = dirs w"
  using list_dir_releases by blast

theorem list_dir_releases_stream_witness:
  "dir_stream demo_env (path \<lparr>path = ''r/locked'', depth = 1\<rparr>) = Inl ''Permission denied''
   \<and> dirs (snd (list_dir demo_cfg demo_env \<lparr>path = ''r/locked'', depth = 1\<rparr> [] w0)) = []
   \<and> length (path \<lparr>path = ''r'', depth = 0\<rparr>) < PATH_MAX - 1
   \<and> dirs (snd (list_dir demo_cfg demo_env \<lparr>path = ''r'', depth = 0\<rparr> [] w0)) = []"
proof -
  have h1: "dir_stream demo_env (path \<lparr>path = ''r/locked'', depth = 1\<rparr>) = Inl ''Permission denied''"
    by (simp add: dir_stream_def demo_env_def)
  have h2: "length (path \<lparr>path = ''r'', depth = 0\<rparr>) < PATH_MAX - 1"
    by (simp add: PATH_MAX_def)
  from list_dir_releases_stream [of demo_env "\<lparr>path = ''r/locked'', depth = 1\<rparr>"
      "''Permission denied''" demo_cfg "[]" w0] h1
  have w1: "dirs (snd (list_dir demo_cfg demo_env \<lparr>path = ''r/locked'', depth = 1\<rparr> [] w0)) = []"
    by simp
  from list_dir_releases_stream [of demo_env "\<lparr>path = ''r'', depth = 0\<rparr>"
      "''Permission denied''" demo_cfg "[]" w0] h2
  have w2: "dirs (snd (list_dir demo_cfg demo_env \<lparr>path = ''r'', depth = 0\<rparr> [] w0)) = []"
    by simp
  from h1 h2 w1 w2 show ?thesis by blast
qed

text \<open>
  X3. The time column of the long format. \<^verbatim>\<open>print_long\<close> writes six columns. It hands
  the buffer that holds the mode string to \<^verbatim>\<open>get_time_string\<close>, and its last column is
  what the buffer holds after that call, and a blank. Where \<^verbatim>\<open>get_time_string\<close> has no
  result, the fault stands in the place of the last column.
\<close>

theorem time_column:
  "length (trace (print_long cfg ev st w)) = length (trace w) + 6
   \<and> (get_time_string cfg ev (get_mode_string (st_mode st)) (st_mtime st) = Inr buf \<longrightarrow>
        last (trace (print_long cfg ev st w)) = Stdout (buf @ '' ''))
   \<and> (get_time_string cfg ev (get_mode_string (st_mode st)) (st_mtime st) = Inl f \<longrightarrow>
        last (trace (print_long cfg ev st w)) = Fault f)"
  by (simp add: print_long_def Let_def print_user_def print_group_def
      split: sum.split option.split)

theorem time_column_witness:
  "get_time_string long_cfg demo_env (get_mode_string (st_mode (mk_stat (S_IFREG OR 420))))
       (st_mtime (mk_stat (S_IFREG OR 420))) = Inr short_time_format
   \<and> last (trace (print_long long_cfg demo_env (mk_stat (S_IFREG OR 420)) w0))
       = Stdout (short_time_format @ '' '')
   \<and> get_time_string long_cfg demo_env
         (get_mode_string (st_mode ((mk_stat (S_IFREG OR 420))\<lparr>st_mtime := 1152921504606846976\<rparr>)))
         (st_mtime ((mk_stat (S_IFREG OR 420))\<lparr>st_mtime := 1152921504606846976\<rparr>))
       = Inl Null_pointer
   \<and> last (trace (print_long long_cfg demo_env
         ((mk_stat (S_IFREG OR 420))\<lparr>st_mtime := 1152921504606846976\<rparr>) w0))
       = Fault Null_pointer"
proof -
  let ?a = "mk_stat (S_IFREG OR 420)"
  let ?b = "(mk_stat (S_IFREG OR 420))\<lparr>st_mtime := 1152921504606846976\<rparr>"
  have h1: "get_time_string long_cfg demo_env (get_mode_string (st_mode ?a)) (st_mtime ?a)
      = Inr short_time_format"
    by (simp add: get_time_string_def time_sub_def long_cfg_def demo_cfg_def demo_env_def
        sample_localtime_def mk_stat_def word_sless_alt)
  have h2: "get_time_string long_cfg demo_env (get_mode_string (st_mode ?b)) (st_mtime ?b)
      = Inl Null_pointer"
    by (simp add: get_time_string_def time_sub_def long_cfg_def demo_cfg_def demo_env_def
        sample_localtime_def mk_stat_def word_sless_alt)
  note c1 = time_column [where cfg = long_cfg and ev = demo_env and st = ?a and w = w0,
      THEN conjunct2, THEN conjunct1, rule_format, OF h1]
  note c2 = time_column [where cfg = long_cfg and ev = demo_env and st = ?b and w = w0,
      THEN conjunct2, THEN conjunct2, rule_format, OF h2]
  from h1 h2 c1 c2 show ?thesis by blast
qed

end
